theory Spec2Isabelle
  imports Complex_Main
begin

section \<open>Python values\<close>

text \<open>
  A Python float is an IEEE double: a finite value (kept as the exact rational it denotes),
  an infinity or NaN. Python compares a float with a float or with an int exactly, so the
  comparisons below are comparisons of rationals; every comparison with NaN is False.
  The two zeros of IEEE are one value here (they compare equal and are both falsy).
\<close>

datatype pyfloat = Fin rat | PosInf | NegInf | NaN

fun float_le :: "pyfloat \<Rightarrow> rat \<Rightarrow> bool" where
  "float_le (Fin q) t = (q \<le> t)"
| "float_le PosInf t = False"
| "float_le NegInf t = True"
| "float_le NaN t = False"

fun float_gt :: "pyfloat \<Rightarrow> rat \<Rightarrow> bool" where
  "float_gt (Fin q) t = (t < q)"
| "float_gt PosInf t = True"
| "float_gt NegInf t = False"
| "float_gt NaN t = False"

text \<open>
  The values a decoded JSON document is made of (and the values the classifier can be
  handed). A dict is an association list read by its first matching key; JSON object keys
  are strings.
\<close>

datatype pyval =
    PNone
  | PBool bool
  | PInt int
  | PFloat pyfloat
  | PStr string
  | PList "pyval list"
  | PDict "(string \<times> pyval) list"

datatype py_error = TypeError | ValueError | KeyError | IndexError | OverflowError | AttributeError

subsection \<open>float()\<close>

text \<open>Python's \<open>int.bit_length\<close> for a natural number.\<close>

fun bit_length :: "nat \<Rightarrow> nat" where
  "bit_length n = (if n = 0 then 0 else Suc (bit_length (n div 2)))"

declare bit_length.simps [simp del]

text \<open>
  \<open>round_half_even m k\<close> is \<open>m / 2^k\<close> rounded to the nearest integer, ties to the even one.
\<close>

definition round_half_even :: "nat \<Rightarrow> nat \<Rightarrow> nat" where
  "round_half_even m k =
     (if k = 0 then m
      else let q = m div 2 ^ k; r = m mod 2 ^ k; h = 2 ^ (k - 1)
           in if h < r \<or> (r = h \<and> odd q) then q + 1 else q)"

text \<open>
  The magnitude of \<open>float(m)\<close> for an int of magnitude \<open>m\<close>: \<open>m\<close> rounded to 53 significant
  bits. An int whose rounded magnitude reaches \<open>2^1024\<close> has no double and \<open>float\<close> raises
  OverflowError.
\<close>

definition round_to_double :: "nat \<Rightarrow> nat" where
  "round_to_double m = (let k = bit_length m - 53 in round_half_even m k * 2 ^ k)"

definition float_of_int :: "int \<Rightarrow> py_error + pyfloat" where
  "float_of_int i =
     (let m = round_to_double (nat \<bar>i\<bar>)
      in if 2 ^ 1024 \<le> m then Inl OverflowError
         else Inr (Fin (if i < 0 then - of_nat m else of_nat m)))"

text \<open>
  \<open>float(value)\<close>. Parsing a string is Python's own; it is the parameter \<open>str_to_float\<close>,
  which gives None where \<open>float\<close> raises ValueError.
\<close>

fun py_float :: "(string \<Rightarrow> pyfloat option) \<Rightarrow> pyval \<Rightarrow> py_error + pyfloat" where
  "py_float str_to_float PNone = Inl TypeError"
| "py_float str_to_float (PBool b) = Inr (Fin (if b then 1 else 0))"
| "py_float str_to_float (PInt i) = float_of_int i"
| "py_float str_to_float (PFloat f) = Inr f"
| "py_float str_to_float (PStr s) =
     (case str_to_float s of None \<Rightarrow> Inl ValueError | Some f \<Rightarrow> Inr f)"
| "py_float str_to_float (PList xs) = Inl TypeError"
| "py_float str_to_float (PDict kvs) = Inl TypeError"

subsection \<open>str.lower()\<close>

text \<open>
  Strings are byte strings here and \<open>lower\<close> maps the letters A to Z to a to z. Python's
  \<open>str.lower\<close> also maps letters outside ASCII, but it maps no string with such a letter to a
  threshold key, and like \<open>lower\<close> it changes nothing when applied a second time.
\<close>

definition lower_char :: "char \<Rightarrow> char" where
  "lower_char c =
     (let n = (of_char c :: nat) in if 65 \<le> n \<and> n \<le> 90 then char_of (n + 32) else c)"

definition lower :: "string \<Rightarrow> string" where
  "lower s = map lower_char s"

section \<open>SoilClassifier\<close>

record thresholds =
  low :: rat
  high :: rat

text \<open>
  The float literals \<open>5.3\<close> and \<open>7.3\<close> denote the doubles nearest to them, which are
  \<open>5967269506265907 / 2^50\<close> and \<open>8219069319951155 / 2^50\<close>; the other six literals are
  exact.
\<close>

definition float_5_3 :: rat where
  "float_5_3 = 5967269506265907 / 2 ^ 50"

definition float_7_3 :: rat where
  "float_7_3 = 8219069319951155 / 2 ^ 50"

text \<open>
  Every finite double is \<open>m * 2^a / 2^b\<close> for an integer \<open>m\<close> of magnitude below \<open>2^53\<close>.
  This is the only fact about doubles that the comparison with \<open>5.3\<close> and \<open>7.3\<close> needs.
\<close>

definition is_binary53 :: "rat \<Rightarrow> bool" where
  "is_binary53 q = (\<exists>m a b. q = of_int m * 2 ^ a / 2 ^ b \<and> \<bar>m\<bar> < 2 ^ 53)"

definition THRESHOLDS :: "string \<Rightarrow> thresholds option" where
  "THRESHOLDS = map_of
     [(''nitrogen'', \<lparr>low = 3 / 2, high = 5\<rparr>),
      (''phosphorus'', \<lparr>low = 10, high = 50\<rparr>),
      (''potassium'', \<lparr>low = 39, high = 195\<rparr>),
      (''ph'', \<lparr>low = float_5_3, high = float_7_3\<rparr>)]"

definition classify_property ::
  "(string \<Rightarrow> pyfloat option) \<Rightarrow> pyval \<Rightarrow> string \<Rightarrow> py_error + string" where
  "classify_property str_to_float value property_name =
     (case THRESHOLDS (lower property_name) of
        None \<Rightarrow> Inr ''Unknown''
      | Some th \<Rightarrow>
          (case py_float str_to_float value of
             Inl TypeError \<Rightarrow> Inr ''Unknown''
           | Inl ValueError \<Rightarrow> Inr ''Unknown''
           | Inl e \<Rightarrow> Inl e
           | Inr v \<Rightarrow>
               if float_le v (low th) then Inr ''Low''
               else if float_le v (high th) then Inr ''Moderate''
               else Inr ''High''))"

subsection \<open>The operations classify_soil_data applies to the payload\<close>

definition and_then :: "'e + 'a \<Rightarrow> ('a \<Rightarrow> 'e + 'b) \<Rightarrow> 'e + 'b" where
  "and_then m f = (case m of Inl e \<Rightarrow> Inl e | Inr x \<Rightarrow> f x)"

fun starts_with :: "string \<Rightarrow> string \<Rightarrow> bool" where
  "starts_with [] s = True"
| "starts_with (c # cs) [] = False"
| "starts_with (c # cs) (d # ds) = (c = d \<and> starts_with cs ds)"

fun str_contains :: "string \<Rightarrow> string \<Rightarrow> bool" where
  "str_contains sub [] = (sub = [])"
| "str_contains sub (d # ds) = (starts_with sub (d # ds) \<or> str_contains sub ds)"

text \<open>
  \<open>key in container\<close> for a string key: a key of a dict, an element of a list, a substring
  of a string; TypeError for a value that is not iterable.
\<close>

fun py_contains :: "string \<Rightarrow> pyval \<Rightarrow> py_error + bool" where
  "py_contains k (PDict kvs) = Inr (k \<in> set (map fst kvs))"
| "py_contains k (PList xs) = Inr (PStr k \<in> set xs)"
| "py_contains k (PStr s) = Inr (str_contains k s)"
| "py_contains k PNone = Inl TypeError"
| "py_contains k (PBool b) = Inl TypeError"
| "py_contains k (PInt i) = Inl TypeError"
| "py_contains k (PFloat f) = Inl TypeError"

text \<open>\<open>container[key]\<close> for a string key: only a dict accepts it.\<close>

fun py_getitem :: "pyval \<Rightarrow> string \<Rightarrow> py_error + pyval" where
  "py_getitem (PDict kvs) k = (case map_of kvs k of None \<Rightarrow> Inl KeyError | Some v \<Rightarrow> Inr v)"
| "py_getitem PNone k = Inl TypeError"
| "py_getitem (PBool b) k = Inl TypeError"
| "py_getitem (PInt i) k = Inl TypeError"
| "py_getitem (PFloat f) k = Inl TypeError"
| "py_getitem (PStr s) k = Inl TypeError"
| "py_getitem (PList xs) k = Inl TypeError"

text \<open>\<open>container[0]\<close>. The keys of a decoded JSON object are strings, so 0 is no key.\<close>

fun py_first :: "pyval \<Rightarrow> py_error + pyval" where
  "py_first (PList []) = Inl IndexError"
| "py_first (PList (x # xs)) = Inr x"
| "py_first (PStr []) = Inl IndexError"
| "py_first (PStr (c # cs)) = Inr (PStr [c])"
| "py_first (PDict kvs) = Inl KeyError"
| "py_first PNone = Inl TypeError"
| "py_first (PBool b) = Inl TypeError"
| "py_first (PInt i) = Inl TypeError"
| "py_first (PFloat f) = Inl TypeError"

fun py_truthy :: "pyval \<Rightarrow> bool" where
  "py_truthy PNone = False"
| "py_truthy (PBool b) = b"
| "py_truthy (PInt i) = (i \<noteq> 0)"
| "py_truthy (PFloat f) = (f \<noteq> Fin 0)"
| "py_truthy (PStr s) = (s \<noteq> [])"
| "py_truthy (PList xs) = (xs \<noteq> [])"
| "py_truthy (PDict kvs) = (kvs \<noteq> [])"

fun py_len :: "pyval \<Rightarrow> py_error + nat" where
  "py_len (PStr s) = Inr (length s)"
| "py_len (PList xs) = Inr (length xs)"
| "py_len (PDict kvs) = Inr (length (remdups (map fst kvs)))"
| "py_len PNone = Inl TypeError"
| "py_len (PBool b) = Inl TypeError"
| "py_len (PInt i) = Inl TypeError"
| "py_len (PFloat f) = Inl TypeError"

subsection \<open>classify_soil_data\<close>

text \<open>An entry of the result, \<open>{"value": value, "classification": classification}\<close>.\<close>

record classified_entry =
  val :: pyval
  classification :: string

type_synonym profile = "string \<rightharpoonup> classified_entry"

definition property_mapping :: "(string \<times> string) list" where
  "property_mapping =
     [(''nitrogen_total'', ''nitrogen''),
      (''phosphorous_extractable'', ''phosphorus''),
      (''potassium_extractable'', ''potassium''),
      (''ph'', ''ph'')]"

text \<open>\<open>soil_data.get("property", {})\<close>\<close>

definition get_property :: "(string \<times> pyval) list \<Rightarrow> pyval" where
  "get_property soil_data =
     (case map_of soil_data ''property'' of None \<Rightarrow> PDict [] | Some p \<Rightarrow> p)"

text \<open>\<open>property_data and len(property_data) > 0\<close>: \<open>len\<close> is not reached for a falsy value.\<close>

definition has_data :: "pyval \<Rightarrow> py_error + bool" where
  "has_data property_data =
     (if py_truthy property_data
      then and_then (py_len property_data) (\<lambda>n. Inr (0 < n))
      else Inr False)"

text \<open>One pass of the loop over \<open>property_mapping.items()\<close>.\<close>

definition classify_field ::
  "(string \<Rightarrow> pyfloat option) \<Rightarrow> (string \<times> pyval) list \<Rightarrow> profile \<Rightarrow> string \<times> string
     \<Rightarrow> py_error + profile" where
  "classify_field str_to_float soil_data classified m =
     (case m of (api_field, class_name) \<Rightarrow>
        and_then (py_contains api_field (get_property soil_data)) (\<lambda>present.
          if \<not> present then Inr classified
          else
            and_then (py_getitem (PDict soil_data) ''property'') (\<lambda>props.
            and_then (py_getitem props api_field) (\<lambda>property_data.
            and_then (has_data property_data) (\<lambda>nonempty.
              if \<not> nonempty then Inr classified
              else
                and_then (py_first property_data) (\<lambda>record0.
                and_then (py_getitem record0 ''value'') (\<lambda>inner.
                and_then (py_getitem inner ''value'') (\<lambda>value.
                and_then (classify_property str_to_float value class_name) (\<lambda>c.
                  Inr (classified(class_name \<mapsto>
                         \<lparr>val = value, classification = c\<rparr>)))))))))))"

fun classify_fields ::
  "(string \<Rightarrow> pyfloat option) \<Rightarrow> (string \<times> pyval) list \<Rightarrow> profile \<Rightarrow> (string \<times> string) list
     \<Rightarrow> py_error + profile" where
  "classify_fields str_to_float soil_data classified [] = Inr classified"
| "classify_fields str_to_float soil_data classified (m # ms) =
     and_then (classify_field str_to_float soil_data classified m)
       (\<lambda>classified'. classify_fields str_to_float soil_data classified' ms)"

definition classify_soil_data ::
  "(string \<Rightarrow> pyfloat option) \<Rightarrow> (string \<times> pyval) list \<Rightarrow> py_error + profile" where
  "classify_soil_data str_to_float soil_data =
     classify_fields str_to_float soil_data Map.empty property_mapping"

text \<open>\<open>record0["value"]["value"]\<close>, the scalar of a measurement record.\<close>

definition nested_value :: "pyval \<Rightarrow> py_error + pyval" where
  "nested_value record0 =
     and_then (py_getitem record0 ''value'') (\<lambda>inner. py_getitem inner ''value'')"

text \<open>
  The payloads of the service: \<open>property\<close> is absent or a mapping, and each of the four
  raw fields is absent from it, falsy, or a sequence whose first record holds a scalar
  under \<open>["value"]["value"]\<close> that is no int beyond the doubles.
\<close>

fun field_ok :: "(string \<Rightarrow> pyfloat option) \<Rightarrow> pyval option \<Rightarrow> bool" where
  "field_ok str_to_float None = True"
| "field_ok str_to_float (Some (PList (record0 # rest))) =
     (case nested_value record0 of
        Inl e \<Rightarrow> False
      | Inr value \<Rightarrow> py_float str_to_float value \<noteq> Inl OverflowError)"
| "field_ok str_to_float (Some property_data) = (\<not> py_truthy property_data)"

definition payload_ok :: "(string \<Rightarrow> pyfloat option) \<Rightarrow> (string \<times> pyval) list \<Rightarrow> bool" where
  "payload_ok str_to_float soil_data =
     (case map_of soil_data ''property'' of
        None \<Rightarrow> True
      | Some (PDict props) \<Rightarrow>
          list_all (\<lambda>m. field_ok str_to_float (map_of props (fst m))) property_mapping
      | Some _ \<Rightarrow> False)"

subsection \<open>A payload to evaluate\<close>

text \<open>
  Nitrogen is measured, the phosphorus record holds a string, the potassium sequence is
  empty, ph is missing, and there is a field the classifier does not know.
\<close>

definition example_payload :: "(string \<times> pyval) list" where
  "example_payload =
     [(''property'', PDict
        [(''nitrogen_total'', PList [PDict [(''value'', PDict [(''value'', PFloat (Fin 3))])]]),
         (''phosphorous_extractable'', PList [PDict [(''value'', PDict [(''value'', PStr ''n/a'')])]]),
         (''potassium_extractable'', PList []),
         (''carbon_total'', PList [PDict [(''value'', PDict [(''value'', PInt 7)])]])])]"

subsection \<open>Comparing a number with a threshold\<close>

text \<open>
  The numbers of Python that a payload can hold, and Python's own \<open>v <= t\<close> and \<open>v > t\<close> on
  them for a rational \<open>t\<close>: a bool counts as the int 0 or 1, an int is compared exactly.
\<close>

fun is_number :: "pyval \<Rightarrow> bool" where
  "is_number (PFloat f) = True"
| "is_number (PInt i) = True"
| "is_number (PBool b) = True"
| "is_number PNone = False"
| "is_number (PStr s) = False"
| "is_number (PList xs) = False"
| "is_number (PDict kvs) = False"

fun num_le :: "pyval \<Rightarrow> rat \<Rightarrow> bool" where
  "num_le (PFloat f) t = float_le f t"
| "num_le (PInt i) t = (of_int i \<le> t)"
| "num_le (PBool b) t = ((if b then 1 else 0) \<le> t)"
| "num_le PNone t = False"
| "num_le (PStr s) t = False"
| "num_le (PList xs) t = False"
| "num_le (PDict kvs) t = False"

fun num_gt :: "pyval \<Rightarrow> rat \<Rightarrow> bool" where
  "num_gt (PFloat f) t = float_gt f t"
| "num_gt (PInt i) t = (t < of_int i)"
| "num_gt (PBool b) t = (t < (if b then 1 else 0))"
| "num_gt PNone t = False"
| "num_gt (PStr s) t = False"
| "num_gt (PList xs) t = False"
| "num_gt (PDict kvs) t = False"

section \<open>SoilDataFetcher\<close>

subsection \<open>The network and the console\<close>

text \<open>
  A header value is a literal or the f-string \<open>f"Bearer {token}"\<close>, kept as the token it
  was formatted from.
\<close>

datatype header_value = HStr string | HBearer pyval

datatype request =
    POST string "(string \<times> header_value) list" "(string \<times> string) list"
  | GET string "(string \<times> pyval) list" "(string \<times> header_value) list" nat

text \<open>
  What a call of \<open>requests.post\<close> or \<open>requests.get\<close> does: it raises a transport error
  (connection failure, timeout), or returns a response with a status code and a body;
  the body is what \<open>response.json()\<close> decodes it to, None where decoding fails.
\<close>

datatype http_outcome = TransportError | Response nat "pyval option"

text \<open>The exceptions below are all subclasses of \<open>requests.exceptions.RequestException\<close>.\<close>

datatype request_exception = ConnectionError | HTTPError nat | JSONDecodeError

datatype message =
    AuthSucceeded
  | AuthFailed request_exception
  | FetchSucceeded pyval pyval
  | FetchFailed request_exception

text \<open>
  The world outside the object: the requests sent so far and the lines printed so far.
  The network is any function from the requests sent before and the request sent now to
  an outcome.
\<close>

record world =
  trace :: "request list"
  printed :: "message list"

type_synonym network = "request list \<Rightarrow> request \<Rightarrow> http_outcome"

definition send :: "network \<Rightarrow> world \<Rightarrow> request \<Rightarrow> world \<times> http_outcome" where
  "send net w req = (w\<lparr>trace := trace w @ [req]\<rparr>, net (trace w) req)"

definition print :: "message \<Rightarrow> world \<Rightarrow> world" where
  "print m w = w\<lparr>printed := printed w @ [m]\<rparr>"

text \<open>\<open>Response.raise_for_status\<close> raises HTTPError for the statuses 400 to 599.\<close>

definition raise_for_status :: "nat \<Rightarrow> request_exception option" where
  "raise_for_status status =
     (if 400 \<le> status \<and> status < 600 then Some (HTTPError status) else None)"

subsection \<open>The object and its methods\<close>

definition TIMEOUT_S :: nat where
  "TIMEOUT_S = 15"

record fetcher =
  username :: string
  password :: string
  base_url :: string
  access_token :: pyval
  token_expiry :: "rat option"

definition init :: "string \<Rightarrow> string \<Rightarrow> fetcher" where
  "init user pass =
     \<lparr>username = user, password = pass, base_url = ''https://api.isda-africa.com'',
      access_token = PNone, token_expiry = None\<rparr>"

definition login_request :: "fetcher \<Rightarrow> request" where
  "login_request s =
     POST (base_url s @ ''/login'')
       [(''accept'', HStr ''application/json''),
        (''Content-Type'', HStr ''application/x-www-form-urlencoded'')]
       [(''grant_type'', ''password''),
        (''username'', username s),
        (''password'', password s),
        (''scope'', []),
        (''client_id'', ''string''),
        (''client_secret'', ''string'')]"

text \<open>
  \<open>authenticate\<close>, at the time \<open>now\<close> read by \<open>time.time()\<close>. A method's result is the value
  it returns, or the exception that leaves it. \<open>token_data.get\<close> exists only for a dict: for
  any other decoded body the attribute lookup raises AttributeError, which the handler for
  RequestException does not catch.
\<close>

definition authenticate ::
  "network \<Rightarrow> rat \<Rightarrow> world \<times> fetcher \<Rightarrow> (world \<times> fetcher) \<times> (py_error + bool)" where
  "authenticate net now st =
     (case st of (w, s) \<Rightarrow>
        (case send net w (login_request s) of
           (w1, TransportError) \<Rightarrow>
             ((print (AuthFailed ConnectionError) w1, s), Inr False)
         | (w1, Response status body) \<Rightarrow>
             (case raise_for_status status of
                Some e \<Rightarrow> ((print (AuthFailed e) w1, s), Inr False)
              | None \<Rightarrow>
                  (case body of
                     None \<Rightarrow> ((print (AuthFailed JSONDecodeError) w1, s), Inr False)
                   | Some (PDict token_data) \<Rightarrow>
                       ((print AuthSucceeded w1,
                         s\<lparr>access_token :=
                              (case map_of token_data ''access_token'' of
                                 None \<Rightarrow> PNone | Some t \<Rightarrow> t),
                           token_expiry := Some (now + 3600)\<rparr>),
                        Inr True)
                   | Some _ \<Rightarrow> ((w1, s), Inl AttributeError)))))"

definition is_token_valid :: "rat \<Rightarrow> fetcher \<Rightarrow> bool" where
  "is_token_valid now s =
     (access_token s \<noteq> PNone \<and>
      (case token_expiry s of None \<Rightarrow> False | Some expiry \<Rightarrow> now < expiry - 300))"

definition get_headers :: "fetcher \<Rightarrow> (string \<times> header_value) list" where
  "get_headers s =
     [(''Authorization'', HBearer (access_token s)),
      (''Content-Type'', HStr ''application/json'')]"

definition soil_request :: "fetcher \<Rightarrow> pyval \<Rightarrow> pyval \<Rightarrow> request" where
  "soil_request s latitude longitude =
     GET (base_url s @ ''/isdasoil/v2/soilproperty'')
       [(''lon'', longitude), (''lat'', latitude), (''depth'', PStr ''0-20'')]
       (get_headers s)
       TIMEOUT_S"

text \<open>
  The end of \<open>fetch_soil_properties\<close>, from \<open>response.raise_for_status()\<close> on, for the
  outcome of the request in hand. The method returns None (here PNone) or the decoded body.
\<close>

definition finish_fetch ::
  "world \<times> fetcher \<Rightarrow> pyval \<Rightarrow> pyval \<Rightarrow> http_outcome
     \<Rightarrow> (world \<times> fetcher) \<times> (py_error + pyval)" where
  "finish_fetch st latitude longitude response =
     (case st of (w, s) \<Rightarrow>
        (case response of
           TransportError \<Rightarrow> ((print (FetchFailed ConnectionError) w, s), Inr PNone)
         | Response status body \<Rightarrow>
             (case raise_for_status status of
                Some e \<Rightarrow> ((print (FetchFailed e) w, s), Inr PNone)
              | None \<Rightarrow>
                  (case body of
                     None \<Rightarrow> ((print (FetchFailed JSONDecodeError) w, s), Inr PNone)
                   | Some soil_data \<Rightarrow>
                       ((print (FetchSucceeded latitude longitude) w, s), Inr soil_data)))))"

definition status_is :: "http_outcome \<Rightarrow> nat \<Rightarrow> bool" where
  "status_is response code =
     (case response of TransportError \<Rightarrow> False | Response status body \<Rightarrow> status = code)"

definition fetch_soil_properties ::
  "network \<Rightarrow> rat \<Rightarrow> world \<times> fetcher \<Rightarrow> pyval \<Rightarrow> pyval
     \<Rightarrow> (world \<times> fetcher) \<times> (py_error + pyval)" where
  "fetch_soil_properties net now st latitude longitude =
     (case st of (w, s) \<Rightarrow>
        (case send net w (soil_request s latitude longitude) of (w1, response) \<Rightarrow>
           if status_is response 401 then
             (case authenticate net now (w1, s) of
                (st2, Inl e) \<Rightarrow> (st2, Inl e)
              | ((w2, s2), Inr ok) \<Rightarrow>
                  if ok then
                    (case send net w2 (soil_request s2 latitude longitude) of
                       (w3, response2) \<Rightarrow>
                         finish_fetch (w3, s2) latitude longitude response2)
                  else ((w2, s2), Inr PNone))
           else finish_fetch (w1, s) latitude longitude response))"

subsection \<open>Reading a request and an outcome\<close>

fun request_url :: "request \<Rightarrow> string" where
  "request_url (POST url headers form) = url"
| "request_url (GET url params headers timeout) = url"

fun request_params :: "request \<Rightarrow> (string \<times> pyval) list" where
  "request_params (POST url headers form) = []"
| "request_params (GET url params headers timeout) = params"

fun request_headers :: "request \<Rightarrow> (string \<times> header_value) list" where
  "request_headers (POST url headers form) = headers"
| "request_headers (GET url params headers timeout) = headers"

fun is_post :: "request \<Rightarrow> bool" where
  "is_post (POST url headers form) = True"
| "is_post (GET url params headers timeout) = False"

text \<open>
  The outcomes that end in a RequestException: the transport error itself, the HTTPError of
  \<open>raise_for_status\<close>, and the JSONDecodeError of \<open>response.json()\<close> (a RequestException
  since requests 2.27).
\<close>

definition request_fails :: "http_outcome \<Rightarrow> bool" where
  "request_fails response =
     (case response of
        TransportError \<Rightarrow> True
      | Response status body \<Rightarrow> raise_for_status status \<noteq> None \<or> body = None)"

text \<open>A network for evaluation: it accepts the token \<open>tok\<close> and answers 401 without it.\<close>

definition example_net :: network where
  "example_net history req =
     (if is_post req then Response 200 (Some (PDict [(''access_token'', PStr ''tok'')]))
      else if map_of (request_headers req) ''Authorization'' = Some (HBearer (PStr ''tok''))
      then Response 200 (Some (PDict [(''property'', PDict [])]))
      else Response 401 None)"

definition example_world :: world where
  "example_world = \<lparr>trace = [], printed = []\<rparr>"

text \<open>A session that holds a token, and a network on which every request is refused.\<close>

definition example_session :: fetcher where
  "example_session = (init ''u'' ''p'')\<lparr>access_token := PStr ''old'', token_expiry := Some 5\<rparr>"

definition refusing_net :: network where
  "refusing_net history req = Response 401 None"

section \<open>Properties of the value model\<close>

lemma lower_char_idem: "lower_char (lower_char c) = lower_char c"
  by (simp add: lower_char_def Let_def of_char_of)

lemma lower_idem: "lower (lower s) = lower s"
  by (simp add: lower_def lower_char_idem)

lemma bit_length_upper: "m < 2 ^ bit_length m"
proof (induction m rule: bit_length.induct)
  case (1 n)
  show ?case
  proof (cases "n = 0")
    case True
    then show ?thesis by (simp add: bit_length.simps)
  next
    case False
    with 1 have "n div 2 < 2 ^ bit_length (n div 2)" by simp
    then have "n < 2 * 2 ^ bit_length (n div 2)" by linarith
    with False show ?thesis by (simp add: bit_length.simps [of n])
  qed
qed

lemma bit_length_lower: "0 < m \<Longrightarrow> 2 ^ (bit_length m - 1) \<le> m"
proof (induction m rule: bit_length.induct)
  case (1 n)
  then have n: "n \<noteq> 0" by simp
  show ?case
  proof (cases "n div 2 = 0")
    case True
    with n show ?thesis by (simp add: bit_length.simps [of n] bit_length.simps [of 0])
  next
    case False
    with 1 n have ih: "2 ^ (bit_length (n div 2) - 1) \<le> n div 2" by simp
    from False have "bit_length (n div 2) \<noteq> 0" by (simp add: bit_length.simps [of "n div 2"])
    then have "2 ^ bit_length (n div 2) = (2::nat) * 2 ^ (bit_length (n div 2) - 1)"
      by (cases "bit_length (n div 2)") simp_all
    with ih have "2 ^ bit_length (n div 2) \<le> n" by linarith
    with n show ?thesis by (simp add: bit_length.simps [of n])
  qed
qed

lemma bit_length_small: "m < 2 ^ k \<Longrightarrow> bit_length m \<le> k"
proof (rule ccontr)
  assume m: "m < 2 ^ k" and "\<not> bit_length m \<le> k"
  then have k: "k \<le> bit_length m - 1" and pos: "0 < m"
    by (auto simp: bit_length.simps [of m] split: if_splits)
  from k have "(2::nat) ^ k \<le> 2 ^ (bit_length m - 1)" by (rule power_increasing) simp
  with bit_length_lower [OF pos] m show False by linarith
qed

lemma round_half_even_ge: "m div 2 ^ k \<le> round_half_even m k"
  by (simp add: round_half_even_def Let_def)

lemma round_to_double_small: "m < 2 ^ 53 \<Longrightarrow> round_to_double m = m"
  using bit_length_small [of m 53] by (simp add: round_to_double_def round_half_even_def)

lemma round_to_double_ge:
  assumes "2 ^ j \<le> m"
  shows "2 ^ j \<le> round_to_double m"
proof -
  define n where "n = bit_length m"
  define k where "k = n - 53"
  from assms have pos: "0 < m" by (cases "m = 0") auto
  have low: "2 ^ (n - 1) \<le> m" unfolding n_def by (rule bit_length_lower [OF pos])
  have "(2::nat) ^ j < 2 ^ n" using assms bit_length_upper [of m] unfolding n_def by linarith
  then have "j < n" by simp
  then have "(2::nat) ^ j \<le> 2 ^ (n - 1)" by (intro power_increasing) auto
  moreover have "2 ^ (n - 1) \<le> round_to_double m"
  proof (cases "k = 0")
    case True
    then show ?thesis using low by (simp add: round_to_double_def round_half_even_def n_def k_def)
  next
    case False
    then have n: "n - 1 = 52 + k" unfolding k_def by simp
    have "2 ^ 52 * 2 ^ k \<le> m" using low unfolding n by (simp add: power_add)
    then have "2 ^ 52 \<le> m div 2 ^ k" by (simp add: less_eq_div_iff_mult_less_eq)
    also have "\<dots> \<le> round_half_even m k" by (rule round_half_even_ge)
    finally have "2 ^ 52 * 2 ^ k \<le> round_half_even m k * 2 ^ k" by simp
    moreover have "round_to_double m = round_half_even m k * 2 ^ k"
      by (simp add: round_to_double_def Let_def n_def k_def)
    ultimately show ?thesis unfolding n by (simp add: power_add)
  qed
  ultimately show ?thesis by linarith
qed

lemma float_of_int_exact:
  assumes "\<bar>i\<bar> < 2 ^ 53"
  shows "float_of_int i = Inr (Fin (of_int i))"
proof -
  from assms have "nat \<bar>i\<bar> < 2 ^ 53" by (simp add: nat_less_iff)
  then have r: "round_to_double (nat \<bar>i\<bar>) = nat \<bar>i\<bar>" by (rule round_to_double_small)
  have "nat \<bar>i\<bar> < 2 ^ 1024"
    using \<open>nat \<bar>i\<bar> < 2 ^ 53\<close> by (rule less_le_trans) simp
  then have small: "\<not> 2 ^ 1024 \<le> nat \<bar>i\<bar>" by (simp only: not_le)
  have v: "(if i < 0 then - of_nat (nat \<bar>i\<bar>) else of_nat (nat \<bar>i\<bar>)) = (of_int i :: rat)"
    by simp
  show ?thesis unfolding float_of_int_def Let_def r using small v by simp
qed

lemma float_of_int_large:
  assumes "2 ^ 53 \<le> \<bar>i\<bar>" and "float_of_int i = Inr x"
  shows "\<exists>q. x = Fin q \<and> 2 ^ 53 \<le> \<bar>q\<bar> \<and> (0 < q \<longleftrightarrow> 0 < i)"
proof -
  define m where "m = round_to_double (nat \<bar>i\<bar>)"
  from assms(1) have "2 ^ 53 \<le> nat \<bar>i\<bar>" by (simp add: le_nat_iff)
  then have "2 ^ 53 \<le> m" unfolding m_def by (rule round_to_double_ge)
  then have "(2::rat) ^ 53 \<le> of_nat m" by (metis of_nat_le_iff of_nat_numeral of_nat_power)
  moreover from assms(2) have "x = Fin (if i < 0 then - of_nat m else of_nat m)"
    by (simp add: float_of_int_def m_def Let_def split: if_splits)
  ultimately show ?thesis using assms(1) by auto
qed

lemma float_of_int_overflow:
  assumes "2 ^ 1024 \<le> \<bar>i\<bar>"
  shows "float_of_int i = Inl OverflowError"
proof -
  from assms have "2 ^ 1024 \<le> nat \<bar>i\<bar>" by (simp add: le_nat_iff)
  then have "2 ^ 1024 \<le> round_to_double (nat \<bar>i\<bar>)" by (rule round_to_double_ge)
  then show ?thesis by (simp add: float_of_int_def)
qed

lemma float_of_int_le:
  assumes "float_of_int i = Inr x" and "\<bar>t\<bar> < 2 ^ 53"
  shows "float_le x t \<longleftrightarrow> of_int i \<le> t"
proof (cases "\<bar>i\<bar> < 2 ^ 53")
  case True
  with assms(1) show ?thesis by (auto simp: float_of_int_exact)
next
  case False
  then have big: "2 ^ 53 \<le> \<bar>i\<bar>" by simp
  from float_of_int_large [OF big assms(1)] obtain q
    where q: "x = Fin q" "2 ^ 53 \<le> \<bar>q\<bar>" "0 < q \<longleftrightarrow> 0 < i" by blast
  from big have "(2::rat) ^ 53 \<le> \<bar>of_int i\<bar>"
    by (metis of_int_abs of_int_le_iff of_int_numeral of_int_power)
  with q assms(2) show ?thesis by (cases "0 < i") (auto simp: abs_if split: if_splits)
qed

lemma float_of_int_gt:
  assumes "float_of_int i = Inr x" and "\<bar>t\<bar> < 2 ^ 53"
  shows "float_gt x t \<longleftrightarrow> t < of_int i"
proof -
  from assms(1) obtain q where "x = Fin q"
    by (auto simp: float_of_int_def Let_def split: if_splits)
  with float_of_int_le [OF assms] show ?thesis by auto
qed

lemma no_binary53_between:
  assumes "is_binary53 q" and "2 ^ 52 \<le> N"
    and lo: "of_int N / 2 ^ 50 < q" and hi: "q < of_int (N + 1) / 2 ^ 50"
  shows False
proof -
  from assms(1) obtain m :: int and a b :: nat
    where q: "q = of_int m * 2 ^ a / 2 ^ b" and m: "\<bar>m\<bar> < 2 ^ 53"
    unfolding is_binary53_def by blast
  from lo have "(of_int N :: rat) * 2 ^ b < of_int m * 2 ^ a * 2 ^ 50"
    unfolding q by (simp add: field_simps)
  then have "(of_int (N * 2 ^ b) :: rat) < of_int (m * 2 ^ (a + 50))"
    by (simp add: power_add)
  then have lo': "N * 2 ^ b < m * 2 ^ (a + 50)" by (simp only: of_int_less_iff)
  from hi have "(of_int m :: rat) * 2 ^ a * 2 ^ 50 < of_int (N + 1) * 2 ^ b"
    unfolding q by (simp add: field_simps)
  then have "(of_int (m * 2 ^ (a + 50)) :: rat) < of_int ((N + 1) * 2 ^ b)"
    by (simp add: power_add)
  then have hi': "m * 2 ^ (a + 50) < (N + 1) * 2 ^ b" by (simp only: of_int_less_iff)
  show False
  proof (cases "b \<le> a + 50")
    case True
    define k where "k = a + 50 - b"
    with True have "a + 50 = k + b" by simp
    then have e: "m * 2 ^ (a + 50) = (m * 2 ^ k) * 2 ^ b" by (simp add: power_add)
    from lo' hi' have "N < m * 2 ^ k" "m * 2 ^ k < N + 1"
      unfolding e by simp_all
    then show False by linarith
  next
    case False
    define d where "d = b - (a + 50)"
    with False have b: "b = d + (a + 50)" and d: "d \<noteq> 0" by simp_all
    from lo' have "(N * 2 ^ d) * 2 ^ (a + 50) < m * 2 ^ (a + 50)"
      unfolding b by (simp add: power_add)
    then have "N * 2 ^ d < m" by simp
    moreover from d have "(2::int) ^ 1 \<le> 2 ^ d" by (intro power_increasing) simp_all
    with assms(2) have "(2::int) ^ 52 * 2 ^ 1 \<le> N * 2 ^ d" by (intro mult_mono) simp_all
    ultimately show False using m by simp
  qed
qed

text \<open>
  No double lies between the double written \<open>5.3\<close> and the decimal 5.3, nor between the
  double written \<open>7.3\<close> and the decimal 7.3: on doubles, comparing with the threshold of the
  table is comparing with the decimal.
\<close>

lemma double_le_5_3:
  assumes "is_binary53 q"
  shows "q \<le> float_5_3 \<longleftrightarrow> q \<le> 53 / 10"
proof
  assume "q \<le> float_5_3"
  then show "q \<le> 53 / 10" by (simp add: float_5_3_def)
next
  assume le: "q \<le> 53 / 10"
  show "q \<le> float_5_3"
  proof (rule ccontr)
    assume "\<not> q \<le> float_5_3"
    then have "of_int 5967269506265907 / 2 ^ 50 < q" by (simp add: float_5_3_def)
    moreover from le have "q < of_int (5967269506265907 + 1) / 2 ^ 50" by simp
    ultimately show False using no_binary53_between [OF assms, of 5967269506265907] by simp
  qed
qed

lemma double_le_7_3:
  assumes "is_binary53 q"
  shows "q \<le> float_7_3 \<longleftrightarrow> q \<le> 73 / 10"
proof
  assume "q \<le> float_7_3"
  then show "q \<le> 73 / 10" by (simp add: float_7_3_def)
next
  assume le: "q \<le> 73 / 10"
  show "q \<le> float_7_3"
  proof (rule ccontr)
    assume "\<not> q \<le> float_7_3"
    then have "of_int 8219069319951155 / 2 ^ 50 < q" by (simp add: float_7_3_def)
    moreover from le have "q < of_int (8219069319951155 + 1) / 2 ^ 50" by simp
    ultimately show False using no_binary53_between [OF assms, of 8219069319951155] by simp
  qed
qed

section \<open>classify_property\<close>

lemma lower_keys:
  "lower ''nitrogen'' = ''nitrogen''" "lower ''phosphorus'' = ''phosphorus''"
  "lower ''potassium'' = ''potassium''" "lower ''ph'' = ''ph''"
  by code_simp+

lemma THRESHOLDS_table:
  "THRESHOLDS ''nitrogen'' = Some \<lparr>low = 3 / 2, high = 5\<rparr>"
  "THRESHOLDS ''phosphorus'' = Some \<lparr>low = 10, high = 50\<rparr>"
  "THRESHOLDS ''potassium'' = Some \<lparr>low = 39, high = 195\<rparr>"
  "THRESHOLDS ''ph'' = Some \<lparr>low = float_5_3, high = float_7_3\<rparr>"
  by (simp_all add: THRESHOLDS_def)

lemma THRESHOLDS_dom:
  "THRESHOLDS k = Some th \<Longrightarrow> k \<in> {''nitrogen'', ''phosphorus'', ''potassium'', ''ph''}"
  by (auto simp: THRESHOLDS_def split: if_splits)

lemma classify_property_converted:
  assumes "THRESHOLDS (lower name) = Some th" and "py_float stf v = Inr x"
  shows "classify_property stf v name =
           Inr (if float_le x (low th) then ''Low''
                else if float_le x (high th) then ''Moderate'' else ''High'')"
  using assms by (simp add: classify_property_def)

lemma num_le_float:
  assumes "is_number v" and "py_float stf v = Inr x" and "\<bar>t\<bar> < 2 ^ 53"
  shows "float_le x t \<longleftrightarrow> num_le v t"
  using assms by (cases v) (auto simp: float_of_int_le)

lemma num_gt_float:
  assumes "is_number v" and "py_float stf v = Inr x" and "\<bar>t\<bar> < 2 ^ 53"
  shows "float_gt x t \<longleftrightarrow> num_gt v t"
  using assms by (cases v) (auto simp: float_of_int_gt)

lemma float_gt_not_le: "float_gt x t \<Longrightarrow> t' \<le> t \<Longrightarrow> \<not> float_le x t'"
  by (cases x) auto

text \<open>
  The bands. For each of the four property names and every number \<open>v\<close> that \<open>float\<close> converts
  (every float and bool, every int within the range of a double), \<open>classify_property\<close> returns
  Low when \<open>v\<close> is at most the low threshold, Moderate when \<open>v\<close> is above the low threshold and
  at most the high one, and High when \<open>v\<close> is above the high threshold. The thresholds are
  those of the table: 1.5 and 5.0, 10 and 50, 39 and 195, and the doubles written 5.3 and 7.3.
\<close>

lemma classify_property_bands:
  assumes "(name, lo, hi) \<in> {(''nitrogen'', 3 / 2, 5), (''phosphorus'', 10, 50),
             (''potassium'', 39, 195), (''ph'', float_5_3, float_7_3)}"
    and "is_number v" and "py_float stf v = Inr x"
  shows "(num_le v lo \<longrightarrow> classify_property stf v name = Inr ''Low'') \<and>
         (num_gt v lo \<and> num_le v hi \<longrightarrow> classify_property stf v name = Inr ''Moderate'') \<and>
         (num_gt v hi \<longrightarrow> classify_property stf v name = Inr ''High'')"
proof -
  from assms(1) have th: "THRESHOLDS (lower name) = Some \<lparr>low = lo, high = hi\<rparr>"
    and bounds: "\<bar>lo\<bar> < 2 ^ 53" "\<bar>hi\<bar> < 2 ^ 53" "lo \<le> hi"
    by (auto simp: lower_keys THRESHOLDS_table float_5_3_def float_7_3_def)
  note r = classify_property_converted [OF th assms(3)]
  note le = num_le_float [OF assms(2,3)] and gt = num_gt_float [OF assms(2,3)]
  have "num_le v lo \<longrightarrow> classify_property stf v name = Inr ''Low''"
    using r le [OF bounds(1)] by simp
  moreover have "num_gt v lo \<and> num_le v hi \<longrightarrow> classify_property stf v name = Inr ''Moderate''"
    using r gt [OF bounds(1)] le [OF bounds(2)] float_gt_not_le [of x lo lo] by auto
  moreover have "num_gt v hi \<longrightarrow> classify_property stf v name = Inr ''High''"
    using r gt [OF bounds(2)] float_gt_not_le [of x hi hi] float_gt_not_le [of x hi lo] bounds(3)
    by auto
  ultimately show ?thesis by blast
qed

text \<open>
  The boundary values: 5.0 is Moderate for nitrogen and 5.01 (the double
  \<open>2820379266640773 / 2^49\<close>) is High; the double 5.3 is Low for ph; the int 195 is Moderate for
  potassium and 196 is High.
\<close>

lemma classify_property_bands_examples:
  "classify_property (\<lambda>s. None) (PFloat (Fin 5)) ''nitrogen'' = Inr ''Moderate'' \<and>
   classify_property (\<lambda>s. None) (PFloat (Fin (2820379266640773 / 2 ^ 49))) ''nitrogen'' = Inr ''High'' \<and>
   classify_property (\<lambda>s. None) (PFloat (Fin float_5_3)) ''ph'' = Inr ''Low'' \<and>
   classify_property (\<lambda>s. None) (PInt 195) ''potassium'' = Inr ''Moderate'' \<and>
   classify_property (\<lambda>s. None) (PInt 196) ''potassium'' = Inr ''High''"
  using classify_property_bands [of "''nitrogen''" "3 / 2" 5 "PFloat (Fin 5)" "\<lambda>s. None" "Fin 5"]
    classify_property_bands [of "''nitrogen''" "3 / 2" 5 "PFloat (Fin (2820379266640773 / 2 ^ 49))"
      "\<lambda>s. None" "Fin (2820379266640773 / 2 ^ 49)"]
    classify_property_bands [of "''ph''" float_5_3 float_7_3 "PFloat (Fin float_5_3)"
      "\<lambda>s. None" "Fin float_5_3"]
    classify_property_bands [of "''potassium''" 39 195 "PInt 195" "\<lambda>s. None" "Fin 195"]
    classify_property_bands [of "''potassium''" 39 195 "PInt 196" "\<lambda>s. None" "Fin 196"]
  by (simp add: float_of_int_exact float_5_3_def float_7_3_def)

lemma ten_pow_400_above_195: "(195::rat) < of_int (10 ^ 400)"
proof -
  have "(195::rat) < 10 ^ 3" by simp
  also have "(10::rat) ^ 3 \<le> 10 ^ 400" by (rule power_increasing) simp_all
  finally show ?thesis by simp
qed

text \<open>
  C1. For every number \<open>v\<close> above the high threshold \<open>classify_property\<close> is to return High.
  The int \<open>10^400\<close> is a number above 195, the high threshold of potassium, and for it
  \<open>classify_property\<close> raises OverflowError: \<open>float\<close> has no double for it, and the handler
  around \<open>float(value)\<close> names TypeError and ValueError only.
\<close>

theorem classify_property_high_overflow:
  "is_number (PInt (10 ^ 400)) \<and> num_gt (PInt (10 ^ 400)) 195 \<and>
   THRESHOLDS ''potassium'' = Some \<lparr>low = 39, high = 195\<rparr> \<and>
   classify_property stf (PInt (10 ^ 400)) ''potassium'' = Inl OverflowError"
proof (intro conjI)
  show "is_number (PInt (10 ^ 400))"
    by (rule is_number.simps(2) [THEN iffD2, OF TrueI])
  show "num_gt (PInt (10 ^ 400)) 195"
    unfolding num_gt.simps by (rule ten_pow_400_above_195)
  show "THRESHOLDS ''potassium'' = Some \<lparr>low = 39, high = 195\<rparr>"
    by (rule THRESHOLDS_table)
  have "float_of_int (10 ^ 400) = Inl OverflowError"
    by (rule float_of_int_overflow) simp
  then show "classify_property stf (PInt (10 ^ 400)) ''potassium'' = Inl OverflowError"
    by (simp add: classify_property_def lower_keys THRESHOLDS_table)
qed

text \<open>
  For ph and a double, the bands in terms of the decimals 5.3 and 7.3.
\<close>

lemma classify_property_ph_double:
  assumes "is_binary53 q"
  shows "classify_property stf (PFloat (Fin q)) ''ph'' =
           Inr (if q \<le> 53 / 10 then ''Low'' else if q \<le> 73 / 10 then ''Moderate'' else ''High'')"
  using classify_property_converted [of "''ph''" "\<lparr>low = float_5_3, high = float_7_3\<rparr>" stf
      "PFloat (Fin q)" "Fin q"]
    double_le_5_3 [OF assms] double_le_7_3 [OF assms]
  by (simp add: lower_keys THRESHOLDS_table)

text \<open>
  C9. \<open>classify_property\<close> does not depend on the case of the property name: a name and its
  lower-case form give the same result, for every value.
\<close>

theorem classify_property_case_insensitive:
  "classify_property stf v s = classify_property stf v (lower s)"
  by (simp add: classify_property_def lower_idem)

lemma classify_property_mixed_case:
  "classify_property stf v ''Nitrogen'' = classify_property stf v ''nitrogen''"
  "classify_property stf v ''PH'' = classify_property stf v ''ph''"
proof -
  have "lower ''Nitrogen'' = ''nitrogen''" "lower ''PH'' = ''ph''" by code_simp+
  then show "classify_property stf v ''Nitrogen'' = classify_property stf v ''nitrogen''"
    "classify_property stf v ''PH'' = classify_property stf v ''ph''"
    by (simp_all add: classify_property_def lower_keys)
qed

text \<open>
  A name outside the threshold set gives Unknown whatever the value is, and so does a value
  for which \<open>float\<close> raises TypeError or ValueError. The one exception that leaves
  \<open>classify_property\<close> is the OverflowError of \<open>float\<close> on an int beyond the doubles.
\<close>

lemma classify_property_unknown_name:
  "THRESHOLDS (lower name) = None \<Longrightarrow> classify_property stf v name = Inr ''Unknown''"
  by (simp add: classify_property_def)

lemma classify_property_not_coercible:
  "py_float stf v = Inl TypeError \<or> py_float stf v = Inl ValueError
     \<Longrightarrow> classify_property stf v name = Inr ''Unknown''"
  by (auto simp: classify_property_def split: option.splits)

lemma py_float_errors:
  "py_float stf v = Inl e \<Longrightarrow>
     e = TypeError \<or> e = ValueError \<or> (e = OverflowError \<and> (\<exists>i. v = PInt i))"
  by (cases v) (auto simp: float_of_int_def Let_def split: if_splits option.splits)

lemma classify_property_raises:
  assumes "classify_property stf v name = Inl e"
  shows "e = OverflowError \<and> (\<exists>i. v = PInt i \<and> float_of_int i = Inl OverflowError) \<and>
         THRESHOLDS (lower name) \<noteq> None"
  using assms py_float_errors [of stf v]
  by (cases v) (auto simp: classify_property_def split: option.splits sum.splits py_error.splits if_splits)

text \<open>
  C6. \<open>classify_property\<close> is to return Unknown and never raise for a value that cannot be
  coerced. For the int \<open>10^400\<close> and the name ph it raises OverflowError: the handler around
  \<open>float(value)\<close> names TypeError and ValueError only.
\<close>

theorem classify_property_overflow:
  "classify_property stf (PInt (10 ^ 400)) ''ph'' = Inl OverflowError"
proof -
  have "float_of_int (10 ^ 400) = Inl OverflowError"
    by (rule float_of_int_overflow) simp
  then show ?thesis
    by (simp add: classify_property_def lower_keys THRESHOLDS_table)
qed

section \<open>classify_soil_data\<close>

lemma and_then_simps [simp]:
  "and_then (Inl e) f = Inl e" "and_then (Inr x) f = f x"
  by (simp_all add: and_then_def)

lemma and_then_Inr_iff:
  "and_then m f = Inr y \<longleftrightarrow> (\<exists>x. m = Inr x \<and> f x = Inr y)"
  by (cases m) simp_all

lemma py_contains_dict: "py_contains k (PDict kvs) = Inr (map_of kvs k \<noteq> None)"
  by (simp add: map_of_eq_None_iff)

lemma classify_field_absent:
  assumes "map_of sd ''property'' = None"
  shows "classify_field stf sd c m = Inr c"
  using assms by (cases m) (simp add: classify_field_def get_property_def)

lemma classify_field_dict:
  assumes "map_of sd ''property'' = Some (PDict props)"
  shows "classify_field stf sd c (api, cls) =
     (case map_of props api of
        None \<Rightarrow> Inr c
      | Some pd \<Rightarrow>
          and_then (has_data pd) (\<lambda>nonempty.
            if nonempty then
              and_then (py_first pd) (\<lambda>r.
              and_then (nested_value r) (\<lambda>v.
              and_then (classify_property stf v cls) (\<lambda>b.
                Inr (c(cls \<mapsto> \<lparr>val = v, classification = b\<rparr>)))))
            else Inr c))"
proof (cases "map_of props api")
  case None
  with assms show ?thesis
    by (simp add: classify_field_def get_property_def py_contains_dict del: py_contains.simps)
next
  case (Some pd)
  with assms show ?thesis
    by (cases "has_data pd"; cases "py_first pd")
      (auto simp add: classify_field_def get_property_def py_contains_dict nested_value_def
        and_then_def simp del: py_contains.simps split: sum.splits)
qed

lemma has_data_list: "has_data (PList xs) = Inr (xs \<noteq> [])"
  by (simp add: has_data_def)

lemma has_data_falsy: "\<not> py_truthy pd \<Longrightarrow> has_data pd = Inr False"
  by (simp add: has_data_def)

lemma classify_field_other:
  assumes "classify_field stf sd c m = Inr c'" and "k \<noteq> snd m"
  shows "c' k = c k"
  using assms
  by (cases m) (auto simp: classify_field_def and_then_Inr_iff split: if_splits)

lemma classify_fields_other:
  assumes "classify_fields stf sd c ms = Inr c'" and "k \<notin> snd ` set ms"
  shows "c' k = c k"
  using assms
proof (induction ms arbitrary: c)
  case Nil
  then show ?case by simp
next
  case (Cons m ms)
  from Cons.prems(1) obtain c1 where c1: "classify_field stf sd c m = Inr c1"
    and rest: "classify_fields stf sd c1 ms = Inr c'"
    by (auto simp: and_then_Inr_iff)
  from Cons.prems(2) have "k \<noteq> snd m" "k \<notin> snd ` set ms" by auto
  with Cons.IH [OF rest] classify_field_other [OF c1] show ?case by simp
qed

lemma classify_fields_entry:
  assumes "distinct (map snd ms)" and "(api, cls) \<in> set ms"
    and "classify_fields stf sd c ms = Inr c'"
  shows "\<exists>c0 c1. classify_field stf sd c0 (api, cls) = Inr c1 \<and> c' cls = c1 cls \<and> c0 cls = c cls"
  using assms
proof (induction ms arbitrary: c)
  case Nil
  then show ?case by simp
next
  case (Cons m ms)
  from Cons.prems(3) obtain c1 where c1: "classify_field stf sd c m = Inr c1"
    and rest: "classify_fields stf sd c1 ms = Inr c'"
    by (auto simp: and_then_Inr_iff)
  from Cons.prems(1) have d: "distinct (map snd ms)" and fresh: "snd m \<notin> snd ` set ms" by auto
  show ?case
  proof (cases "m = (api, cls)")
    case True
    with fresh have "cls \<notin> snd ` set ms" by simp
    from classify_fields_other [OF rest this] c1 True show ?thesis by blast
  next
    case False
    with Cons.prems(2) have mem: "(api, cls) \<in> set ms" by simp
    then have "cls \<in> snd ` set ms" by force
    with fresh have "cls \<noteq> snd m" by blast
    from classify_field_other [OF c1 this] Cons.IH [OF d mem rest] show ?thesis by auto
  qed
qed

lemma classify_fields_cong:
  assumes "\<And>m c. m \<in> set ms \<Longrightarrow> classify_field stf sd c m = classify_field stf sd' c m"
  shows "classify_fields stf sd c ms = classify_fields stf sd' c ms"
  using assms
proof (induction ms arbitrary: c)
  case Nil
  then show ?case by simp
next
  case (Cons m ms)
  then show ?case by (cases "classify_field stf sd' c m") simp_all
qed

lemma classify_fields_unchanged:
  assumes "\<And>m c. m \<in> set ms \<Longrightarrow> classify_field stf sd c m = Inr c"
  shows "classify_fields stf sd c ms = Inr c"
  using assms by (induction ms arbitrary: c) simp_all

lemma classify_fields_returns:
  assumes "\<And>m c. m \<in> set ms \<Longrightarrow> \<exists>c'. classify_field stf sd c m = Inr c'"
  shows "\<exists>c'. classify_fields stf sd c ms = Inr c'"
  using assms
proof (induction ms arbitrary: c)
  case Nil
  then show ?case by simp
next
  case (Cons m ms)
  from Cons.prems [of m c] obtain c1 where "classify_field stf sd c m = Inr c1" by auto
  moreover from Cons.IH [of c1] Cons.prems obtain c' where "classify_fields stf sd c1 ms = Inr c'"
    by auto
  ultimately show ?case by simp
qed

lemma property_mapping_distinct: "distinct (map snd property_mapping)"
  by (simp add: property_mapping_def)

lemma property_mapping_set:
  "set property_mapping =
     {(''nitrogen_total'', ''nitrogen''), (''phosphorous_extractable'', ''phosphorus''),
      (''potassium_extractable'', ''potassium''), (''ph'', ''ph'')}"
  by (simp add: property_mapping_def)

lemma classify_soil_data_profile:
  assumes "get_property soil_data = PDict props"
    and "(api, cls) \<in> set property_mapping"
    and "classify_soil_data stf soil_data = Inr profile"
  shows "map_of props api = None \<Longrightarrow> profile cls = None"
    and "map_of props api = Some pd \<Longrightarrow> \<not> py_truthy pd \<Longrightarrow> profile cls = None"
    and "map_of props api = Some (PList (r # rs)) \<Longrightarrow>
           \<exists>v band. nested_value r = Inr v \<and> classify_property stf v cls = Inr band \<and>
             profile cls = Some \<lparr>val = v, classification = band\<rparr>"
proof -
  from assms(3) have "classify_fields stf soil_data Map.empty property_mapping = Inr profile"
    by (simp add: classify_soil_data_def)
  from classify_fields_entry [OF property_mapping_distinct assms(2) this]
  obtain c0 c1 where step: "classify_field stf soil_data c0 (api, cls) = Inr c1"
    and c1: "profile cls = c1 cls" and c0: "c0 cls = None"
    by auto
  have "(map_of props api = None \<longrightarrow> profile cls = None) \<and>
        (map_of props api = Some pd \<and> \<not> py_truthy pd \<longrightarrow> profile cls = None) \<and>
        (map_of props api = Some (PList (r # rs)) \<longrightarrow>
           (\<exists>v band. nested_value r = Inr v \<and> classify_property stf v cls = Inr band \<and>
             profile cls = Some \<lparr>val = v, classification = band\<rparr>))"
  proof (cases "map_of soil_data ''property''")
    case None
    with assms(1) have "props = []" by (simp add: get_property_def)
    moreover from None step have "c1 = c0" by (simp add: classify_field_absent)
    ultimately show ?thesis using c0 c1 by simp
  next
    case (Some p)
    with assms(1) have "map_of soil_data ''property'' = Some (PDict props)"
      by (simp add: get_property_def)
    note eq = step [unfolded classify_field_dict [OF this]]
    have "map_of props api = None \<longrightarrow> profile cls = None"
      using eq c0 c1 by auto
    moreover have "map_of props api = Some pd \<and> \<not> py_truthy pd \<longrightarrow> profile cls = None"
      using eq c0 c1 by (auto simp: has_data_falsy)
    moreover have "map_of props api = Some (PList (r # rs)) \<longrightarrow>
           (\<exists>v band. nested_value r = Inr v \<and> classify_property stf v cls = Inr band \<and>
             profile cls = Some \<lparr>val = v, classification = band\<rparr>)"
      using eq c1 by (auto simp: has_data_list and_then_Inr_iff)
    ultimately show ?thesis by blast
  qed
  then show "map_of props api = None \<Longrightarrow> profile cls = None"
    and "map_of props api = Some pd \<Longrightarrow> \<not> py_truthy pd \<Longrightarrow> profile cls = None"
    and "map_of props api = Some (PList (r # rs)) \<Longrightarrow>
           \<exists>v band. nested_value r = Inr v \<and> classify_property stf v cls = Inr band \<and>
             profile cls = Some \<lparr>val = v, classification = band\<rparr>"
    by blast+
qed

text \<open>
  C5, as stated, fails: a field present with a non-empty sequence does not always get an
  entry. Here ph holds a well-formed record, and \<open>nitrogen_total\<close> is the int 5, on which
  \<open>len\<close> raises TypeError: no profile is returned, so ph gets no entry.
\<close>

theorem classify_soil_data_entries_counterexample:
  "classify_soil_data (\<lambda>s. None)
     [(''property'', PDict
        [(''ph'', PList [PDict [(''value'', PDict [(''value'', PFloat (Fin (13 / 2)))])]]),
         (''nitrogen_total'', PInt 5)])]
     = Inl TypeError"
  by (simp add: classify_soil_data_def property_mapping_def classify_field_def
      get_property_def has_data_def)

text \<open>
  C5, amended. In every profile that \<open>classify_soil_data\<close> returns for a payload whose
  \<open>property\<close> entry is absent or a mapping, a mapped raw field that is absent from that
  mapping, or present with an empty sequence, has no entry under its canonical name; a field
  present with a non-empty sequence has an entry that holds its first record's value and the
  band of that value.
\<close>

theorem classify_soil_data_entries:
  assumes "get_property soil_data = PDict props"
    and "(api_field, class_name) \<in> set property_mapping"
    and "classify_soil_data stf soil_data = Inr profile"
  shows "(map_of props api_field = None \<or> map_of props api_field = Some (PList [])
           \<longrightarrow> profile class_name = None) \<and>
         (\<forall>record0 rest. map_of props api_field = Some (PList (record0 # rest)) \<longrightarrow>
            (\<exists>value band. nested_value record0 = Inr value \<and>
               classify_property stf value class_name = Inr band \<and>
               profile class_name = Some \<lparr>val = value, classification = band\<rparr>))"
proof -
  from assms(3) have "classify_fields stf soil_data Map.empty property_mapping = Inr profile"
    by (simp add: classify_soil_data_def)
  from classify_fields_entry [OF property_mapping_distinct assms(2) this]
  obtain c0 c1 where step: "classify_field stf soil_data c0 (api_field, class_name) = Inr c1"
    and c1: "profile class_name = c1 class_name" and c0: "c0 class_name = None"
    by auto
  show ?thesis
  proof (cases "map_of soil_data ''property''")
    case None
    with assms(1) have "props = []" by (simp add: get_property_def)
    moreover from None step have "c1 = c0" by (simp add: classify_field_absent)
    ultimately show ?thesis using c0 c1 by simp
  next
    case (Some p)
    with assms(1) have "map_of soil_data ''property'' = Some (PDict props)"
      by (simp add: get_property_def)
    note eq = step [unfolded classify_field_dict [OF this]]
    have "map_of props api_field = None \<or> map_of props api_field = Some (PList [])
            \<longrightarrow> profile class_name = None"
      using eq c0 c1 by (auto simp: has_data_list)
    moreover have "\<exists>value band. nested_value record0 = Inr value \<and>
               classify_property stf value class_name = Inr band \<and>
               profile class_name = Some \<lparr>val = value, classification = band\<rparr>"
      if "map_of props api_field = Some (PList (record0 # rest))" for record0 rest
      using eq c1 that by (auto simp: has_data_list and_then_Inr_iff)
    ultimately show ?thesis by blast
  qed
qed

lemma classify_property_returns:
  assumes "py_float stf v \<noteq> Inl OverflowError"
  shows "\<exists>band. classify_property stf v name = Inr band"
proof (cases "classify_property stf v name")
  case (Inl e)
  from classify_property_raises [OF this] assms show ?thesis by auto
next
  case (Inr band)
  then show ?thesis by simp
qed

lemma example_payload_profile:
  "classify_soil_data (\<lambda>s. None) example_payload =
     Inr [''nitrogen'' \<mapsto> \<lparr>val = PFloat (Fin 3), classification = ''Moderate''\<rparr>,
          ''phosphorus'' \<mapsto> \<lparr>val = PStr ''n/a'', classification = ''Unknown''\<rparr>]"
  by (simp add: example_payload_def classify_soil_data_def property_mapping_def
      classify_field_def get_property_def has_data_def classify_property_def
      lower_keys THRESHOLDS_table)

theorem classify_soil_data_entries_witness:
  "\<exists>profile. classify_soil_data (\<lambda>s. None) example_payload = Inr profile \<and>
     profile ''ph'' = None \<and> profile ''potassium'' = None \<and>
     profile ''nitrogen'' = Some \<lparr>val = PFloat (Fin 3), classification = ''Moderate''\<rparr> \<and>
     profile ''phosphorus'' = Some \<lparr>val = PStr ''n/a'', classification = ''Unknown''\<rparr>"
proof -
  let ?props = "[(''nitrogen_total'', PList [PDict [(''value'', PDict [(''value'', PFloat (Fin 3))])]]),
         (''phosphorous_extractable'', PList [PDict [(''value'', PDict [(''value'', PStr ''n/a'')])]]),
         (''potassium_extractable'', PList []),
         (''carbon_total'', PList [PDict [(''value'', PDict [(''value'', PInt 7)])]])]"
  have g: "get_property example_payload = PDict ?props"
    by (simp add: example_payload_def get_property_def)
  note r = example_payload_profile
  have "(''ph'', ''ph'') \<in> set property_mapping"
    "(''potassium_extractable'', ''potassium'') \<in> set property_mapping"
    "(''nitrogen_total'', ''nitrogen'') \<in> set property_mapping"
    "(''phosphorous_extractable'', ''phosphorus'') \<in> set property_mapping"
    by (simp_all add: property_mapping_def)
  from this [THEN classify_soil_data_entries [OF g _ r]] r show ?thesis
    by (simp add: nested_value_def)
qed

text \<open>
  C10. A payload with no \<open>property\<close> key, or whose property mapping holds none of the four
  raw fields, gives the empty profile. Fields other than the four do not affect the result
  (two payloads whose property mappings agree on the four fields give the same result) and
  never appear in it (the keys of a profile are canonical names).
\<close>

theorem classify_soil_data_unrecognized:
  "(map_of soil_data ''property'' = None \<or>
      (\<exists>props. map_of soil_data ''property'' = Some (PDict props) \<and>
         (\<forall>api \<in> fst ` set property_mapping. map_of props api = None))
     \<longrightarrow> classify_soil_data stf soil_data = Inr Map.empty) \<and>
   (\<forall>props props'.
      map_of soil_data ''property'' = Some (PDict props) \<and>
      map_of soil_data' ''property'' = Some (PDict props') \<and>
      (\<forall>api \<in> fst ` set property_mapping. map_of props api = map_of props' api)
      \<longrightarrow> classify_soil_data stf soil_data = classify_soil_data stf soil_data') \<and>
   (\<forall>profile. classify_soil_data stf soil_data = Inr profile
      \<longrightarrow> dom profile \<subseteq> snd ` set property_mapping)"
proof (intro conjI allI impI)
  assume "map_of soil_data ''property'' = None \<or>
      (\<exists>props. map_of soil_data ''property'' = Some (PDict props) \<and>
         (\<forall>api \<in> fst ` set property_mapping. map_of props api = None))"
  then have "classify_field stf soil_data c m = Inr c" if "m \<in> set property_mapping" for m c
  proof
    assume "map_of soil_data ''property'' = None"
    then show ?thesis by (rule classify_field_absent)
  next
    assume "\<exists>props. map_of soil_data ''property'' = Some (PDict props) \<and>
         (\<forall>api \<in> fst ` set property_mapping. map_of props api = None)"
    then obtain props where p: "map_of soil_data ''property'' = Some (PDict props)"
      and none: "\<forall>api \<in> fst ` set property_mapping. map_of props api = None" by blast
    from that none have "map_of props (fst m) = None" by simp
    with classify_field_dict [OF p, of stf c "fst m" "snd m"] show ?thesis by simp
  qed
  then show "classify_soil_data stf soil_data = Inr Map.empty"
    unfolding classify_soil_data_def by (rule classify_fields_unchanged)
next
  fix props props'
  assume a: "map_of soil_data ''property'' = Some (PDict props) \<and>
      map_of soil_data' ''property'' = Some (PDict props') \<and>
      (\<forall>api \<in> fst ` set property_mapping. map_of props api = map_of props' api)"
  have "classify_field stf soil_data c m = classify_field stf soil_data' c m"
    if "m \<in> set property_mapping" for m c
  proof -
    from that a have "map_of props (fst m) = map_of props' (fst m)" by simp
    with a classify_field_dict [of soil_data props stf c "fst m" "snd m"]
      classify_field_dict [of soil_data' props' stf c "fst m" "snd m"]
    show ?thesis by simp
  qed
  then show "classify_soil_data stf soil_data = classify_soil_data stf soil_data'"
    unfolding classify_soil_data_def by (rule classify_fields_cong)
next
  fix profile
  assume r: "classify_soil_data stf soil_data = Inr profile"
  show "dom profile \<subseteq> snd ` set property_mapping"
  proof
    fix k
    assume k: "k \<in> dom profile"
    show "k \<in> snd ` set property_mapping"
    proof (rule ccontr)
      assume "k \<notin> snd ` set property_mapping"
      with r have "profile k = Map.empty k"
        unfolding classify_soil_data_def by (rule classify_fields_other)
      with k show False by auto
    qed
  qed
qed

theorem classify_soil_data_unrecognized_witness:
  "classify_soil_data (\<lambda>s. None) [(''source'', PStr ''isda'')] = Inr Map.empty \<and>
   classify_soil_data (\<lambda>s. None)
     [(''property'', PDict [(''carbon_total'', PList [PDict [(''value'', PDict [(''value'', PInt 7)])]])])]
     = Inr Map.empty \<and>
   classify_soil_data (\<lambda>s. None) example_payload =
     classify_soil_data (\<lambda>s. None)
       [(''property'', PDict
          [(''nitrogen_total'', PList [PDict [(''value'', PDict [(''value'', PFloat (Fin 3))])]]),
           (''phosphorous_extractable'', PList [PDict [(''value'', PDict [(''value'', PStr ''n/a'')])]]),
           (''potassium_extractable'', PList [])])]"
  using
    classify_soil_data_unrecognized [of "[(''source'', PStr ''isda'')]" "\<lambda>s. None" "[]"]
    classify_soil_data_unrecognized [of
      "[(''property'', PDict [(''carbon_total'', PList [PDict [(''value'', PDict [(''value'', PInt 7)])]])])]"
      "\<lambda>s. None" "[]"]
    classify_soil_data_unrecognized [of example_payload "\<lambda>s. None"
       "[(''property'', PDict
          [(''nitrogen_total'', PList [PDict [(''value'', PDict [(''value'', PFloat (Fin 3))])]]),
           (''phosphorous_extractable'', PList [PDict [(''value'', PDict [(''value'', PStr ''n/a'')])]]),
           (''potassium_extractable'', PList [])])]"]
  by (simp add: property_mapping_def example_payload_def)

lemma classify_field_ok:
  assumes "map_of sd ''property'' = Some (PDict props)" and "field_ok stf (map_of props api)"
  shows "\<exists>c'. classify_field stf sd c (api, cls) = Inr c'"
proof (cases "map_of props api")
  case None
  with classify_field_dict [OF assms(1), of stf c api cls] show ?thesis by simp
next
  case (Some pd)
  show ?thesis
  proof (cases "\<exists>r rs. pd = PList (r # rs)")
    case True
    then obtain r rs where pd: "pd = PList (r # rs)" by blast
    with assms(2) Some obtain v where v: "nested_value r = Inr v"
      and conv: "py_float stf v \<noteq> Inl OverflowError"
      by (auto split: sum.splits)
    from classify_property_returns [OF conv, of cls] obtain band
      where "classify_property stf v cls = Inr band" by blast
    with classify_field_dict [OF assms(1), of stf c api cls] Some pd v show ?thesis
      by (simp add: has_data_list)
  next
    case False
    with assms(2) Some have "\<not> py_truthy pd"
      by (cases "(stf, Some pd)" rule: field_ok.cases) auto
    then have "has_data pd = Inr False" by (rule has_data_falsy)
    with classify_field_dict [OF assms(1), of stf c api cls] Some show ?thesis by simp
  qed
qed

text \<open>
  C4, as stated, fails: for a payload whose ph sequence holds a record without the key
  \<open>value\<close>, \<open>classify_soil_data\<close> raises KeyError.
\<close>

theorem classify_soil_data_raises_counterexample:
  "classify_soil_data (\<lambda>s. None) [(''property'', PDict [(''ph'', PList [PDict []])])]
     = Inl KeyError"
  by (simp add: classify_soil_data_def property_mapping_def classify_field_def
      get_property_def has_data_def)

lemma payload_ok_property:
  assumes "payload_ok stf soil_data"
  shows "\<exists>props. get_property soil_data = PDict props"
  using assms
  by (auto simp: payload_ok_def get_property_def split: option.splits pyval.splits)

lemma classify_soil_data_total:
  assumes "payload_ok stf soil_data"
  shows "\<exists>profile. classify_soil_data stf soil_data = Inr profile"
proof (cases "map_of soil_data ''property''")
  case None
  then have "classify_fields stf soil_data Map.empty property_mapping = Inr Map.empty"
    by (intro classify_fields_unchanged classify_field_absent)
  then show ?thesis by (simp add: classify_soil_data_def)
next
  case (Some p)
  with assms obtain props where p: "map_of soil_data ''property'' = Some (PDict props)"
    and ok: "list_all (\<lambda>m. field_ok stf (map_of props (fst m))) property_mapping"
    by (cases p) (auto simp: payload_ok_def)
  have "\<exists>c'. classify_field stf soil_data c m = Inr c'" if "m \<in> set property_mapping" for m c
  proof -
    from ok that have "field_ok stf (map_of props (fst m))" by (simp add: list_all_iff)
    from classify_field_ok [OF p this, of c "snd m"] show ?thesis by simp
  qed
  then show ?thesis unfolding classify_soil_data_def by (rule classify_fields_returns)
qed

text \<open>
  C4, amended. \<open>classify_soil_data\<close> returns a profile, and raises nothing, for every payload
  whose \<open>property\<close> entry is absent or a mapping in which each of the four raw fields is absent,
  falsy (an empty sequence, for one), or a non-empty list whose first record holds under
  \<open>["value"]["value"]\<close> a value other than an int that \<open>float\<close> cannot represent. In that profile
  a field that is absent or falsy has no entry, and a field with such a record has an entry
  with the record's value and its band; the band is Unknown when \<open>float\<close> raises TypeError or
  ValueError on the value.
\<close>

theorem classify_soil_data_returns:
  assumes "payload_ok stf soil_data"
  shows "\<exists>profile props.
           classify_soil_data stf soil_data = Inr profile \<and>
           get_property soil_data = PDict props \<and>
           (\<forall>api cls. (api, cls) \<in> set property_mapping \<longrightarrow>
              (map_of props api = None \<longrightarrow> profile cls = None) \<and>
              (\<forall>pd. map_of props api = Some pd \<and> \<not> py_truthy pd \<longrightarrow> profile cls = None) \<and>
              (\<forall>r rs. map_of props api = Some (PList (r # rs)) \<longrightarrow>
                 (\<exists>v band. nested_value r = Inr v \<and>
                    profile cls = Some \<lparr>val = v, classification = band\<rparr> \<and>
                    classify_property stf v cls = Inr band \<and>
                    (py_float stf v = Inl TypeError \<or> py_float stf v = Inl ValueError
                       \<longrightarrow> band = ''Unknown''))))"
proof -
  from classify_soil_data_total [OF assms] obtain profile
    where r: "classify_soil_data stf soil_data = Inr profile" by blast
  from payload_ok_property [OF assms] obtain props
    where g: "get_property soil_data = PDict props" by blast
  have "(map_of props api = None \<longrightarrow> profile cls = None) \<and>
        (\<forall>pd. map_of props api = Some pd \<and> \<not> py_truthy pd \<longrightarrow> profile cls = None) \<and>
        (\<forall>r rs. map_of props api = Some (PList (r # rs)) \<longrightarrow>
           (\<exists>v band. nested_value r = Inr v \<and>
              profile cls = Some \<lparr>val = v, classification = band\<rparr> \<and>
              classify_property stf v cls = Inr band \<and>
              (py_float stf v = Inl TypeError \<or> py_float stf v = Inl ValueError
                 \<longrightarrow> band = ''Unknown'')))"
    if m: "(api, cls) \<in> set property_mapping" for api cls
  proof (intro conjI allI impI)
    assume "map_of props api = None"
    then show "profile cls = None" by (rule classify_soil_data_profile(1) [OF g m r])
  next
    fix pd
    assume "map_of props api = Some pd \<and> \<not> py_truthy pd"
    then show "profile cls = None" using classify_soil_data_profile(2) [OF g m r] by blast
  next
    fix rec rs
    assume "map_of props api = Some (PList (rec # rs))"
    from classify_soil_data_profile(3) [OF g m r this] obtain v band
      where v: "nested_value rec = Inr v" and b: "classify_property stf v cls = Inr band"
        and e: "profile cls = Some \<lparr>val = v, classification = band\<rparr>" by blast
    have "py_float stf v = Inl TypeError \<or> py_float stf v = Inl ValueError \<longrightarrow> band = ''Unknown''"
      using b classify_property_not_coercible [of stf v cls] by auto
    with v b e show "\<exists>v band. nested_value rec = Inr v \<and>
              profile cls = Some \<lparr>val = v, classification = band\<rparr> \<and>
              classify_property stf v cls = Inr band \<and>
              (py_float stf v = Inl TypeError \<or> py_float stf v = Inl ValueError
                 \<longrightarrow> band = ''Unknown'')" by blast
  qed
  with r g show ?thesis by blast
qed

theorem classify_soil_data_returns_witness:
  "payload_ok (\<lambda>s. None) example_payload \<and>
   (\<exists>profile. classify_soil_data (\<lambda>s. None) example_payload = Inr profile \<and>
      profile ''ph'' = None \<and> profile ''potassium'' = None \<and>
      profile ''phosphorus'' = Some \<lparr>val = PStr ''n/a'', classification = ''Unknown''\<rparr>)"
proof -
  let ?props = "[(''nitrogen_total'', PList [PDict [(''value'', PDict [(''value'', PFloat (Fin 3))])]]),
         (''phosphorous_extractable'', PList [PDict [(''value'', PDict [(''value'', PStr ''n/a'')])]]),
         (''potassium_extractable'', PList []),
         (''carbon_total'', PList [PDict [(''value'', PDict [(''value'', PInt 7)])]])]"
  have ok: "payload_ok (\<lambda>s. None) example_payload"
    by (simp add: payload_ok_def example_payload_def property_mapping_def nested_value_def)
  have g: "get_property example_payload = PDict ?props"
    by (simp add: example_payload_def get_property_def)
  from classify_soil_data_returns [OF ok] g obtain profile
    where r: "classify_soil_data (\<lambda>s. None) example_payload = Inr profile"
      and all: "\<forall>api cls. (api, cls) \<in> set property_mapping \<longrightarrow>
              (map_of ?props api = None \<longrightarrow> profile cls = None) \<and>
              (\<forall>pd. map_of ?props api = Some pd \<and> \<not> py_truthy pd \<longrightarrow> profile cls = None) \<and>
              (\<forall>r rs. map_of ?props api = Some (PList (r # rs)) \<longrightarrow>
                 (\<exists>v band. nested_value r = Inr v \<and>
                    profile cls = Some \<lparr>val = v, classification = band\<rparr> \<and>
                    classify_property (\<lambda>s. None) v cls = Inr band \<and>
                    (py_float (\<lambda>s. None) v = Inl TypeError \<or> py_float (\<lambda>s. None) v = Inl ValueError
                       \<longrightarrow> band = ''Unknown'')))"
    by auto
  from all [rule_format, of "''ph''" "''ph''"] have "profile ''ph'' = None"
    by (simp add: property_mapping_def)
  moreover from all [rule_format, of "''potassium_extractable''" "''potassium''"]
  have "profile ''potassium'' = None"
    by (simp add: property_mapping_def)
  moreover from all [rule_format, of "''phosphorous_extractable''" "''phosphorus''"]
  have "profile ''phosphorus'' = Some \<lparr>val = PStr ''n/a'', classification = ''Unknown''\<rparr>"
    by (auto simp: property_mapping_def nested_value_def)
  ultimately show ?thesis using ok r by blast
qed

text \<open>
  A first record without the nested \<open>value\<close> keys, in any of the four fields, makes
  \<open>classify_soil_data\<close> raise.
\<close>

lemma classify_soil_data_malformed_record:
  assumes "map_of soil_data ''property'' = Some (PDict props)"
    and "(api, cls) \<in> set property_mapping"
    and "map_of props api = Some (PList (r # rs))"
    and "nested_value r = Inl e"
  shows "\<exists>e'. classify_soil_data stf soil_data = Inl e'"
proof (cases "classify_soil_data stf soil_data")
  case (Inl e')
  then show ?thesis by simp
next
  case (Inr profile)
  then have "classify_fields stf soil_data Map.empty property_mapping = Inr profile"
    by (simp add: classify_soil_data_def)
  from classify_fields_entry [OF property_mapping_distinct assms(2) this]
  obtain c0 c1 where "classify_field stf soil_data c0 (api, cls) = Inr c1" by auto
  with classify_field_dict [OF assms(1), of stf c0 api cls] assms(3,4) show ?thesis
    by (simp add: has_data_list)
qed

section \<open>authenticate\<close>

lemma authenticate_cases:
  obtains
    (transport) "net (trace w) (login_request s) = TransportError"
      "authenticate net now (w, s) =
         ((print (AuthFailed ConnectionError) (w\<lparr>trace := trace w @ [login_request s]\<rparr>), s), Inr False)"
  | (http_error) status body where "net (trace w) (login_request s) = Response status body"
      "400 \<le> status" "status < 600"
      "authenticate net now (w, s) =
         ((print (AuthFailed (HTTPError status)) (w\<lparr>trace := trace w @ [login_request s]\<rparr>), s), Inr False)"
  | (not_json) status where "net (trace w) (login_request s) = Response status None"
      "\<not> (400 \<le> status \<and> status < 600)"
      "authenticate net now (w, s) =
         ((print (AuthFailed JSONDecodeError) (w\<lparr>trace := trace w @ [login_request s]\<rparr>), s), Inr False)"
  | (token) status token_data where
      "net (trace w) (login_request s) = Response status (Some (PDict token_data))"
      "\<not> (400 \<le> status \<and> status < 600)"
      "authenticate net now (w, s) =
         ((print AuthSucceeded (w\<lparr>trace := trace w @ [login_request s]\<rparr>),
           s\<lparr>access_token := (case map_of token_data ''access_token'' of None \<Rightarrow> PNone | Some t \<Rightarrow> t),
             token_expiry := Some (now + 3600)\<rparr>), Inr True)"
  | (not_object) status body where
      "net (trace w) (login_request s) = Response status (Some body)"
      "\<not> (400 \<le> status \<and> status < 600)" "\<forall>token_data. body \<noteq> PDict token_data"
      "authenticate net now (w, s) =
         ((w\<lparr>trace := trace w @ [login_request s]\<rparr>, s), Inl AttributeError)"
proof (cases "net (trace w) (login_request s)")
  case TransportError
  then show ?thesis
    by (intro transport) (simp_all add: authenticate_def send_def)
next
  case (Response status body)
  show ?thesis
  proof (cases "400 \<le> status \<and> status < 600")
    case True
    with Response show ?thesis
      by (intro http_error [of status body]) (simp_all add: authenticate_def send_def raise_for_status_def)
  next
    case False
    show ?thesis
    proof (cases body)
      case None
      with Response False show ?thesis
        by (intro not_json [of status]) (auto simp add: authenticate_def send_def raise_for_status_def)
    next
      case (Some b)
      show ?thesis
      proof (cases "\<exists>token_data. b = PDict token_data")
        case True
        then obtain token_data where "b = PDict token_data" by blast
        with Response False Some show ?thesis
          by (intro token [of status token_data])
            (auto simp add: authenticate_def send_def raise_for_status_def)
      next
        case nd: False
        with Response False Some show ?thesis
          by (intro not_object [of status b]; cases b)
            (auto simp add: authenticate_def send_def raise_for_status_def)
      qed
    qed
  qed
qed

lemma authenticate_world:
  assumes "authenticate net now (w, s) = ((wa, sa), ra)"
  shows "trace wa = trace w @ [login_request s]"
    and "base_url sa = base_url s"
    and "ra \<noteq> Inr True \<Longrightarrow> sa = s"
    and "ra = Inr False \<Longrightarrow> \<exists>e. printed wa = printed w @ [AuthFailed e]"
    and "ra = Inr True \<Longrightarrow> printed wa = printed w @ [AuthSucceeded]"
  using assms by (cases rule: authenticate_cases [of net w s now]; auto simp: print_def)+

text \<open>
  C3, as stated, fails. A login answered 200 with the JSON object \<open>{}\<close>, which has no
  \<open>access_token\<close>, is no failure for \<open>authenticate\<close>: it returns True, and the stored token
  \<open>old\<close> is replaced by None and the expiry 5 by \<open>now + 3600\<close>. A status outside 2xx is no
  failure either unless it is one that \<open>raise_for_status\<close> rejects: 302 with a JSON object
  gives True.
\<close>

theorem authenticate_overwrites_counterexample:
  "authenticate (\<lambda>history req. Response 200 (Some (PDict []))) 7 (example_world, example_session) =
     ((\<lparr>trace = [login_request example_session], printed = [AuthSucceeded]\<rparr>,
       example_session\<lparr>access_token := PNone, token_expiry := Some 3607\<rparr>), Inr True) \<and>
   snd (authenticate
         (\<lambda>history req. Response 302 (Some (PDict [(''access_token'', PStr ''new'')])))
         7 (example_world, example_session)) = Inr True"
  by (simp add: authenticate_def send_def print_def raise_for_status_def example_world_def)

text \<open>
  C3, amended. When the login request ends in a transport error, a status from 400 to 599 or
  a body that is not JSON, \<open>authenticate\<close> returns False and the session is what it was.
  Whenever \<open>authenticate\<close> does not return True, the session is what it was. A JSON object
  under any other status is a success: \<open>authenticate\<close> returns True and stores
  \<open>token_data.get("access_token")\<close>, None when the field is missing, and the expiry
  \<open>now + 3600\<close>.
\<close>

theorem authenticate_failure_keeps_session:
  "(request_fails (net (trace w) (login_request s))
      \<longrightarrow> (\<exists>w'. authenticate net now (w, s) = ((w', s), Inr False))) \<and>
   (\<forall>st r. authenticate net now (w, s) = (st, r) \<and> r \<noteq> Inr True \<longrightarrow> snd st = s) \<and>
   (\<forall>status token_data.
      net (trace w) (login_request s) = Response status (Some (PDict token_data)) \<and>
      \<not> (400 \<le> status \<and> status < 600)
      \<longrightarrow> (\<exists>w'. authenticate net now (w, s) =
             ((w', s\<lparr>access_token :=
                       (case map_of token_data ''access_token'' of None \<Rightarrow> PNone | Some t \<Rightarrow> t),
                     token_expiry := Some (now + 3600)\<rparr>), Inr True)))"
proof (intro conjI allI impI)
  assume "request_fails (net (trace w) (login_request s))"
  then show "\<exists>w'. authenticate net now (w, s) = ((w', s), Inr False)"
    by (cases rule: authenticate_cases [of net w s now])
      (auto simp: request_fails_def raise_for_status_def)
next
  fix st r
  assume "authenticate net now (w, s) = (st, r) \<and> r \<noteq> Inr True"
  then show "snd st = s"
    by (cases rule: authenticate_cases [of net w s now]) auto
next
  fix status token_data
  assume "net (trace w) (login_request s) = Response status (Some (PDict token_data)) \<and>
      \<not> (400 \<le> status \<and> status < 600)"
  then show "\<exists>w'. authenticate net now (w, s) =
             ((w', s\<lparr>access_token :=
                       (case map_of token_data ''access_token'' of None \<Rightarrow> PNone | Some t \<Rightarrow> t),
                     token_expiry := Some (now + 3600)\<rparr>), Inr True)"
    by (cases rule: authenticate_cases [of net w s now]) auto
qed

theorem authenticate_failure_keeps_session_witness:
  "request_fails (refusing_net (trace example_world) (login_request example_session)) \<and>
   (\<exists>w'. authenticate refusing_net 7 (example_world, example_session)
            = ((w', example_session), Inr False))"
  using authenticate_failure_keeps_session [of refusing_net example_world example_session 7]
  by (simp add: request_fails_def refusing_net_def raise_for_status_def)

section \<open>fetch_soil_properties\<close>

lemma finish_fetch_world:
  assumes "finish_fetch (w, s) lat lon response = ((w', s'), r)"
  shows "trace w' = trace w" and "s' = s"
    and "request_fails response \<Longrightarrow> r = Inr PNone \<and> (\<exists>e. printed w' = printed w @ [FetchFailed e])"
    and "\<not> request_fails response \<Longrightarrow>
           \<exists>status payload. response = Response status (Some payload) \<and> r = Inr payload \<and>
             printed w' = printed w @ [FetchSucceeded lat lon]"
  using assms
  by (auto simp: finish_fetch_def request_fails_def print_def
      split: http_outcome.splits option.splits)

lemma fetch_not_401:
  assumes "\<not> status_is (net (trace w) (soil_request s lat lon)) 401"
  shows "fetch_soil_properties net now (w, s) lat lon =
           finish_fetch (w\<lparr>trace := trace w @ [soil_request s lat lon]\<rparr>, s) lat lon
             (net (trace w) (soil_request s lat lon))"
  using assms by (simp add: fetch_soil_properties_def send_def)

lemma fetch_401:
  assumes "status_is (net (trace w) (soil_request s lat lon)) 401"
    and "authenticate net now (w\<lparr>trace := trace w @ [soil_request s lat lon]\<rparr>, s) = ((wa, sa), ra)"
  shows "fetch_soil_properties net now (w, s) lat lon =
           (case ra of
              Inl e \<Rightarrow> ((wa, sa), Inl e)
            | Inr ok \<Rightarrow>
                if ok then
                  finish_fetch (wa\<lparr>trace := trace wa @ [soil_request sa lat lon]\<rparr>, sa) lat lon
                    (net (trace wa) (soil_request sa lat lon))
                else ((wa, sa), Inr PNone))"
  using assms by (simp add: fetch_soil_properties_def send_def split: sum.splits)

lemma soil_request_same:
  assumes "base_url sa = base_url s"
  shows "request_url (soil_request sa lat lon) = request_url (soil_request s lat lon)"
    and "request_params (soil_request sa lat lon) = request_params (soil_request s lat lon)"
  using assms by (simp_all add: soil_request_def)

lemma is_post_requests [simp]:
  "is_post (login_request s)" "\<not> is_post (soil_request s lat lon)"
  by (simp_all add: login_request_def soil_request_def)

text \<open>
  C2. When the first GET is answered 401, \<open>fetch_soil_properties\<close> calls \<open>authenticate\<close> once:
  the requests it sends are the GET, one login POST and, exactly when \<open>authenticate\<close> returned
  True, one more GET with the same URL and the same query parameters. When \<open>authenticate\<close>
  returned False the method returns None and sends no second GET.
\<close>

theorem fetch_401_reauthenticates_once:
  assumes "status_is (net (trace w) (soil_request s lat lon)) 401"
    and "authenticate net now (w\<lparr>trace := trace w @ [soil_request s lat lon]\<rparr>, s) = ((wa, sa), ra)"
    and "fetch_soil_properties net now (w, s) lat lon = ((w', s'), r)"
  shows "trace w' = trace w @ [soil_request s lat lon, login_request s] @
                      (if ra = Inr True then [soil_request sa lat lon] else []) \<and>
         filter is_post (drop (length (trace w)) (trace w')) = [login_request s] \<and>
         request_url (soil_request sa lat lon) = request_url (soil_request s lat lon) \<and>
         request_params (soil_request sa lat lon) = request_params (soil_request s lat lon) \<and>
         (ra = Inr False \<longrightarrow> r = Inr PNone \<and> s' = s)"
proof -
  note a = authenticate_world [OF assms(2)]
  note f = assms(3) [unfolded fetch_401 [OF assms(1,2)]]
  have t: "trace w' = trace w @ [soil_request s lat lon, login_request s] @
                      (if ra = Inr True then [soil_request sa lat lon] else [])"
  proof (cases ra)
    case (Inl e)
    with f a(1) show ?thesis by auto
  next
    case (Inr ok)
    show ?thesis
    proof (cases ok)
      case True
      with Inr f have "finish_fetch (wa\<lparr>trace := trace wa @ [soil_request sa lat lon]\<rparr>, sa) lat lon
                    (net (trace wa) (soil_request sa lat lon)) = ((w', s'), r)" by simp
      from finish_fetch_world(1) [OF this] a(1) Inr True show ?thesis by simp
    next
      case False
      with Inr f a(1) show ?thesis by auto
    qed
  qed
  moreover from t have "filter is_post (drop (length (trace w)) (trace w')) = [login_request s]"
    by simp
  moreover have "ra = Inr False \<longrightarrow> r = Inr PNone \<and> s' = s"
    using f a(3) by auto
  ultimately show ?thesis using soil_request_same [OF a(2)] by simp
qed

lemma example_authenticate:
  "authenticate example_net now
     (example_world\<lparr>trace := [soil_request (init ''u'' ''p'') lat lon]\<rparr>, init ''u'' ''p'') =
   ((\<lparr>trace = [soil_request (init ''u'' ''p'') lat lon, login_request (init ''u'' ''p'')],
      printed = [AuthSucceeded]\<rparr>,
     (init ''u'' ''p'')\<lparr>access_token := PStr ''tok'', token_expiry := Some (now + 3600)\<rparr>),
    Inr True)"
  by (simp add: authenticate_def send_def print_def raise_for_status_def example_world_def
      example_net_def login_request_def)

lemma refusing_authenticate:
  "authenticate refusing_net now
     (example_world\<lparr>trace := [soil_request example_session lat lon]\<rparr>, example_session) =
   ((\<lparr>trace = [soil_request example_session lat lon, login_request example_session],
      printed = [AuthFailed (HTTPError 401)]\<rparr>, example_session), Inr False)"
  by (simp add: authenticate_def send_def print_def raise_for_status_def example_world_def
      refusing_net_def)

theorem fetch_401_reauthenticates_once_witness:
  "status_is (example_net (trace example_world) (soil_request (init ''u'' ''p'') (PInt 0) (PInt 34))) 401 \<and>
   trace (fst (fst (fetch_soil_properties example_net 0 (example_world, init ''u'' ''p'') (PInt 0) (PInt 34)))) =
     [soil_request (init ''u'' ''p'') (PInt 0) (PInt 34),
      login_request (init ''u'' ''p''),
      soil_request ((init ''u'' ''p'')\<lparr>access_token := PStr ''tok'', token_expiry := Some 3600\<rparr>)
        (PInt 0) (PInt 34)] \<and>
   status_is (refusing_net (trace example_world) (soil_request example_session (PInt 0) (PInt 34))) 401 \<and>
   trace (fst (fst (fetch_soil_properties refusing_net 0 (example_world, example_session) (PInt 0) (PInt 34)))) =
     [soil_request example_session (PInt 0) (PInt 34), login_request example_session] \<and>
   snd (fetch_soil_properties refusing_net 0 (example_world, example_session) (PInt 0) (PInt 34)) = Inr PNone"
proof -
  let ?s = "init ''u'' ''p''"
  have h1: "status_is (example_net (trace example_world) (soil_request ?s (PInt 0) (PInt 34))) 401"
    by (simp add: status_is_def example_net_def soil_request_def get_headers_def init_def)
  have a1: "authenticate example_net 0
      (example_world\<lparr>trace := trace example_world @ [soil_request ?s (PInt 0) (PInt 34)]\<rparr>, ?s) =
    ((\<lparr>trace = [soil_request ?s (PInt 0) (PInt 34), login_request ?s], printed = [AuthSucceeded]\<rparr>,
      ?s\<lparr>access_token := PStr ''tok'', token_expiry := Some 3600\<rparr>), Inr True)"
    using example_authenticate [of 0 "PInt 0" "PInt 34"] by (simp add: example_world_def)
  obtain w1 s1 r1 where f1:
    "fetch_soil_properties example_net 0 (example_world, ?s) (PInt 0) (PInt 34) = ((w1, s1), r1)"
    by (metis surj_pair)
  have h2: "status_is (refusing_net (trace example_world) (soil_request example_session (PInt 0) (PInt 34))) 401"
    by (simp add: status_is_def refusing_net_def)
  have a2: "authenticate refusing_net 0
      (example_world\<lparr>trace := trace example_world @ [soil_request example_session (PInt 0) (PInt 34)]\<rparr>,
       example_session) =
    ((\<lparr>trace = [soil_request example_session (PInt 0) (PInt 34), login_request example_session],
       printed = [AuthFailed (HTTPError 401)]\<rparr>, example_session), Inr False)"
    using refusing_authenticate [of 0 "PInt 0" "PInt 34"] by (simp add: example_world_def)
  obtain w2 s2 r2 where f2:
    "fetch_soil_properties refusing_net 0 (example_world, example_session) (PInt 0) (PInt 34) = ((w2, s2), r2)"
    by (metis surj_pair)
  from fetch_401_reauthenticates_once [OF h1 a1 f1] fetch_401_reauthenticates_once [OF h2 a2 f2]
    h1 h2 f1 f2
  show ?thesis by (simp add: example_world_def)
qed

text \<open>
  C7. Whatever the session is, the first request \<open>fetch_soil_properties\<close> sends is the GET,
  carrying the token stored at that moment; a login POST is sent only after that GET was
  answered 401, and without a 401 nothing else is sent and the session is untouched.
\<close>

theorem fetch_first_request:
  assumes "fetch_soil_properties net now (w, s) lat lon = ((w', s'), r)"
  shows "\<exists>rest. trace w' = trace w @ soil_request s lat lon # rest \<and>
           map_of (request_headers (soil_request s lat lon)) ''Authorization''
             = Some (HBearer (access_token s)) \<and>
           (\<forall>req \<in> set rest. is_post req
              \<longrightarrow> status_is (net (trace w) (soil_request s lat lon)) 401) \<and>
           (\<not> status_is (net (trace w) (soil_request s lat lon)) 401 \<longrightarrow> rest = [] \<and> s' = s)"
proof -
  have hdr: "map_of (request_headers (soil_request s lat lon)) ''Authorization''
             = Some (HBearer (access_token s))"
    by (simp add: soil_request_def get_headers_def)
  show ?thesis
  proof (cases "status_is (net (trace w) (soil_request s lat lon)) 401")
    case False
    from assms [unfolded fetch_not_401 [of net w s lat lon now, OF False]]
    have "trace w' = trace w @ [soil_request s lat lon]" "s' = s"
      by (auto dest: finish_fetch_world(1,2))
    with False hdr show ?thesis by simp
  next
    case True
    obtain wa sa ra where a:
      "authenticate net now (w\<lparr>trace := trace w @ [soil_request s lat lon]\<rparr>, s) = ((wa, sa), ra)"
      by (metis surj_pair)
    note t = authenticate_world(1) [OF a]
    note f = assms [unfolded fetch_401 [OF True a]]
    have "\<exists>rest. trace w' = trace w @ soil_request s lat lon # rest"
    proof (cases ra)
      case (Inl e)
      with f t show ?thesis by auto
    next
      case (Inr ok)
      show ?thesis
      proof (cases ok)
        case True
        with Inr f have "finish_fetch (wa\<lparr>trace := trace wa @ [soil_request sa lat lon]\<rparr>, sa) lat lon
                    (net (trace wa) (soil_request sa lat lon)) = ((w', s'), r)" by simp
        from finish_fetch_world(1) [OF this] t show ?thesis by simp
      next
        case False
        with Inr f t show ?thesis by auto
      qed
    qed
    with True hdr show ?thesis by auto
  qed
qed

theorem fetch_first_request_witness:
  "trace (fst (fst (fetch_soil_properties example_net 0 (example_world, example_session) (PInt 0) (PInt 34))))
     = [soil_request example_session (PInt 0) (PInt 34),
        login_request example_session,
        soil_request (example_session\<lparr>access_token := PStr ''tok'', token_expiry := Some 3600\<rparr>)
          (PInt 0) (PInt 34)] \<and>
   status_is (example_net (trace example_world) (soil_request example_session (PInt 0) (PInt 34))) 401 \<and>
   map_of (request_headers (soil_request example_session (PInt 0) (PInt 34))) ''Authorization''
     = Some (HBearer (PStr ''old''))"
proof -
  have f: "fetch_soil_properties example_net 0 (example_world, example_session) (PInt 0) (PInt 34) =
    ((\<lparr>trace = [soil_request example_session (PInt 0) (PInt 34),
        login_request example_session,
        soil_request (example_session\<lparr>access_token := PStr ''tok'', token_expiry := Some 3600\<rparr>)
          (PInt 0) (PInt 34)], printed = [AuthSucceeded, FetchSucceeded (PInt 0) (PInt 34)]\<rparr>,
      example_session\<lparr>access_token := PStr ''tok'', token_expiry := Some 3600\<rparr>),
     Inr (PDict [(''property'', PDict [])]))"
    by (simp add: fetch_soil_properties_def authenticate_def finish_fetch_def send_def print_def
        raise_for_status_def status_is_def example_net_def example_world_def example_session_def
        soil_request_def login_request_def get_headers_def init_def)
  from fetch_first_request [OF f] f show ?thesis
    by (auto simp: example_session_def init_def)
qed

text \<open>
  C8, as stated, fails. A status outside 2xx that \<open>raise_for_status\<close> accepts is no failure:
  a GET answered 300 with a JSON body returns that body. And when the login after a 401 is
  answered with JSON that is no object, the AttributeError of \<open>authenticate\<close> leaves
  \<open>fetch_soil_properties\<close>.
\<close>

theorem fetch_failure_counterexample:
  "snd (fetch_soil_properties
          (\<lambda>history req. Response 300 (Some (PDict [(''property'', PDict [])])))
          0 (example_world, example_session) (PInt 0) (PInt 34))
     = Inr (PDict [(''property'', PDict [])]) \<and>
   snd (fetch_soil_properties
          (\<lambda>history req. if is_post req then Response 200 (Some (PList [])) else Response 401 None)
          0 (example_world, example_session) (PInt 0) (PInt 34))
     = Inl AttributeError"
  by (simp add: fetch_soil_properties_def authenticate_def finish_fetch_def send_def print_def
      raise_for_status_def status_is_def example_world_def soil_request_def login_request_def)

text \<open>
  C8, amended. \<open>fetch_soil_properties\<close> returns None, after a printed line that names the
  failure, when the GET that is not retried ends in a transport error, a status from 400 to
  599 or a body that is not JSON (the first GET when it is not answered 401, the second GET
  after a successful \<open>authenticate\<close>), and when \<open>authenticate\<close> returns False after a 401.
\<close>

theorem fetch_failure_returns_none:
  assumes "fetch_soil_properties net now (w, s) lat lon = ((w', s'), r)"
    and "authenticate net now (w\<lparr>trace := trace w @ [soil_request s lat lon]\<rparr>, s) = ((wa, sa), ra)"
  shows "(\<not> status_is (net (trace w) (soil_request s lat lon)) 401 \<and>
          request_fails (net (trace w) (soil_request s lat lon))
            \<longrightarrow> r = Inr PNone \<and> (\<exists>e. printed w' = printed w @ [FetchFailed e])) \<and>
         (status_is (net (trace w) (soil_request s lat lon)) 401 \<and> ra = Inr False
            \<longrightarrow> r = Inr PNone \<and> (\<exists>e. printed w' = printed w @ [AuthFailed e])) \<and>
         (status_is (net (trace w) (soil_request s lat lon)) 401 \<and> ra = Inr True \<and>
          request_fails (net (trace wa) (soil_request sa lat lon))
            \<longrightarrow> r = Inr PNone \<and> (\<exists>e. printed w' = printed w @ [AuthSucceeded, FetchFailed e]))"
proof (intro conjI impI; (elim conjE)?)
  assume n: "\<not> status_is (net (trace w) (soil_request s lat lon)) 401"
    and fails: "request_fails (net (trace w) (soil_request s lat lon))"
  from assms(1) [unfolded fetch_not_401 [of net w s lat lon now, OF n]]
  have "r = Inr PNone \<and>
        (\<exists>e. printed w' = printed (w\<lparr>trace := trace w @ [soil_request s lat lon]\<rparr>) @ [FetchFailed e])"
    using fails by (rule finish_fetch_world(3))
  then show "r = Inr PNone" and "\<exists>e. printed w' = printed w @ [FetchFailed e]" by simp_all
next
  assume u: "status_is (net (trace w) (soil_request s lat lon)) 401" and ra: "ra = Inr False"
  from assms(1) [unfolded fetch_401 [OF u assms(2)]] ra have "w' = wa" "r = Inr PNone" by simp_all
  with authenticate_world(4) [OF assms(2) ra]
  show "r = Inr PNone" and "\<exists>e. printed w' = printed w @ [AuthFailed e]" by simp_all
next
  assume u: "status_is (net (trace w) (soil_request s lat lon)) 401" and ra: "ra = Inr True"
    and fails: "request_fails (net (trace wa) (soil_request sa lat lon))"
  from assms(1) [unfolded fetch_401 [OF u assms(2)]] ra
  have "finish_fetch (wa\<lparr>trace := trace wa @ [soil_request sa lat lon]\<rparr>, sa) lat lon
          (net (trace wa) (soil_request sa lat lon)) = ((w', s'), r)" by simp
  from finish_fetch_world(3) [OF this fails] authenticate_world(5) [OF assms(2) ra]
  show "r = Inr PNone" and "\<exists>e. printed w' = printed w @ [AuthSucceeded, FetchFailed e]"
    by simp_all
qed

theorem fetch_failure_returns_none_witness:
  "status_is (refusing_net (trace example_world) (soil_request example_session (PInt 0) (PInt 34))) 401 \<and>
   fetch_soil_properties refusing_net 0 (example_world, example_session) (PInt 0) (PInt 34) =
     ((\<lparr>trace = [soil_request example_session (PInt 0) (PInt 34), login_request example_session],
        printed = [AuthFailed (HTTPError 401)]\<rparr>, example_session), Inr PNone) \<and>
   request_fails (Response 503 None) \<and>
   fetch_soil_properties (\<lambda>history req. Response 503 None) 0 (example_world, example_session)
       (PInt 0) (PInt 34) =
     ((\<lparr>trace = [soil_request example_session (PInt 0) (PInt 34)],
        printed = [FetchFailed (HTTPError 503)]\<rparr>, example_session), Inr PNone)"
proof -
  have f1: "fetch_soil_properties refusing_net 0 (example_world, example_session) (PInt 0) (PInt 34) =
     ((\<lparr>trace = [soil_request example_session (PInt 0) (PInt 34), login_request example_session],
        printed = [AuthFailed (HTTPError 401)]\<rparr>, example_session), Inr PNone)"
    by (simp add: fetch_soil_properties_def authenticate_def send_def print_def
        raise_for_status_def status_is_def refusing_net_def example_world_def)
  have a1: "authenticate refusing_net 0
      (example_world\<lparr>trace := trace example_world @ [soil_request example_session (PInt 0) (PInt 34)]\<rparr>,
       example_session) =
    ((\<lparr>trace = [soil_request example_session (PInt 0) (PInt 34), login_request example_session],
       printed = [AuthFailed (HTTPError 401)]\<rparr>, example_session), Inr False)"
    using refusing_authenticate [of 0 "PInt 0" "PInt 34"] by (simp add: example_world_def)
  have f2: "fetch_soil_properties (\<lambda>history req. Response 503 None) 0 (example_world, example_session)
       (PInt 0) (PInt 34) =
     ((\<lparr>trace = [soil_request example_session (PInt 0) (PInt 34)],
        printed = [FetchFailed (HTTPError 503)]\<rparr>, example_session), Inr PNone)"
    by (simp add: fetch_soil_properties_def finish_fetch_def send_def print_def
        raise_for_status_def status_is_def example_world_def)
  obtain wa sa ra where a2: "authenticate (\<lambda>history req. Response 503 None) 0
      (example_world\<lparr>trace := trace example_world @ [soil_request example_session (PInt 0) (PInt 34)]\<rparr>,
       example_session) = ((wa, sa), ra)"
    by (metis surj_pair)
  from fetch_failure_returns_none [OF f1 a1] fetch_failure_returns_none [OF f2 a2] f1 f2
  show ?thesis
    by (simp add: status_is_def refusing_net_def request_fails_def raise_for_status_def)
qed

text \<open>
  The one exception that leaves \<open>fetch_soil_properties\<close> is the AttributeError of
  \<open>authenticate\<close>, after a 401 and a login answered with JSON that is no object.
\<close>

lemma fetch_raises:
  assumes "fetch_soil_properties net now (w, s) lat lon = (st, Inl e)"
  shows "e = AttributeError \<and> status_is (net (trace w) (soil_request s lat lon)) 401 \<and>
         (\<exists>status body.
            net (trace w @ [soil_request s lat lon]) (login_request s) = Response status (Some body) \<and>
            (\<forall>token_data. body \<noteq> PDict token_data))"
proof (cases "status_is (net (trace w) (soil_request s lat lon)) 401")
  case False
  obtain w' s' where st: "st = (w', s')" by (cases st)
  from assms [unfolded fetch_not_401 [of net w s lat lon now, OF False] st]
  show ?thesis
    by (cases "request_fails (net (trace w) (soil_request s lat lon))")
      (auto dest: finish_fetch_world(3,4))
next
  case True
  obtain w' s' where st: "st = (w', s')" by (cases st)
  let ?w1 = "w\<lparr>trace := trace w @ [soil_request s lat lon]\<rparr>"
  obtain wa sa ra where a: "authenticate net now (?w1, s) = ((wa, sa), ra)"
    by (metis surj_pair)
  note f = assms [unfolded fetch_401 [OF True a] st]
  have "ra = Inl e"
  proof (cases ra)
    case (Inl e')
    with f show ?thesis by simp
  next
    case (Inr ok)
    with f show ?thesis
      by (cases ok; cases "request_fails (net (trace wa) (soil_request sa lat lon))")
        (auto dest: finish_fetch_world(3,4))
  qed
  with a True show ?thesis
    by (cases rule: authenticate_cases [of net ?w1 s now]) auto
qed

end
